theory Spec2Isabelle
  imports Complex_Main "HOL-Library.Sublist" "HOL-Library.AList"
begin

section \<open>Request instrumentation of the tracing package\<close>

text \<open>
  A shallow embedding of \<^verbatim>\<open>packages/tracing/src/browser/request.ts\<close>.

  Conventions of the embedding:
  \<^item> The two dictionaries (\<^verbatim>\<open>urlMap\<close>, \<^verbatim>\<open>spans\<close>) are created as \<^verbatim>\<open>{}\<close>: a
    partial map holds their own properties, and a read of a key that is not an own
    property finds the member of \<^verbatim>\<open>Object.prototype\<close> of that name, if there is one.
    An assignment creates or replaces an own property. (JavaScript does otherwise for
    the one key \<^verbatim>\<open>__proto__\<close>, which is never assigned in \<^verbatim>\<open>urlMap\<close>, as the
    filter returns before, and is not among the specification's span ids, which are
    hexadecimal tokens.)
  \<^item> An optional property is an \<open>option\<close>; \<open>None\<close> is \<^verbatim>\<open>undefined\<close>.
  \<^item> The truthiness tests of the source are written out: a string is truthy when it
    is not empty, a number when it is not zero, an object always.
  \<^item> The closure state of \<^verbatim>\<open>registerRequestInstrumentation\<close> (the two
    dictionaries) is passed explicitly as a record, together with four observation
    logs: the number of pattern matches performed, the spans started, the spans
    finished, and the exceptions that left a callback uncaught.
\<close>

subsection \<open>Exceptions and property reads\<close>

datatype error = Error string | TypeError string

text \<open>
  The names of the members of \<^verbatim>\<open>Object.prototype\<close>, which every object created as
  \<^verbatim>\<open>{}\<close> inherits (ECMAScript with its annex for browsers). All of them are truthy:
  functions, and for \<^verbatim>\<open>__proto__\<close> the prototype object itself.
\<close>

definition Object_prototype_members :: "string list" where
  "Object_prototype_members =
     [''constructor'', ''__defineGetter__'', ''__defineSetter__'', ''hasOwnProperty'',
      ''__lookupGetter__'', ''__lookupSetter__'', ''isPrototypeOf'',
      ''propertyIsEnumerable'', ''toString'', ''valueOf'', ''__proto__'',
      ''toLocaleString'']"

text \<open>What \<^verbatim>\<open>obj[key]\<close> finds in a dictionary created as \<^verbatim>\<open>{}\<close>.\<close>

datatype 'a property = Own 'a | Inherited | Absent

definition get_property :: "(string \<rightharpoonup> 'a) \<Rightarrow> string \<Rightarrow> 'a property" where
  "get_property obj key =
     (case obj key of
        Some v \<Rightarrow> Own v
      | None \<Rightarrow> if key \<in> set Object_prototype_members then Inherited else Absent)"

subsection \<open>Patterns\<close>

datatype origin = Str string | RegExp "string \<Rightarrow> bool"

text \<open>\<^verbatim>\<open>value.indexOf(pattern) !== -1\<close>: the pattern occurs somewhere in the value.\<close>

fun str_includes :: "string \<Rightarrow> string \<Rightarrow> bool" where
  "str_includes [] p = (p = [])"
| "str_includes (c # cs) p = (prefix p (c # cs) \<or> str_includes cs p)"

text \<open>
  Modelled from the spec: \<^verbatim>\<open>isMatchingPattern\<close> of \<^verbatim>\<open>@sentry/utils\<close> is not
  among the sources. The spec calls the matchers "exact substrings or patterns": a
  string matcher matches when it occurs in the URL, a regular expression is taken as
  the predicate its \<^verbatim>\<open>test\<close> method computes (without the sticky state of a global
  expression).
\<close>

fun isMatchingPattern :: "string \<Rightarrow> origin \<Rightarrow> bool" where
  "isMatchingPattern v (Str p) = str_includes v p"
| "isMatchingPattern v (RegExp r) = r v"

text \<open>\<^verbatim>\<open>DEFAULT_TRACING_ORIGINS = ['localhost', /^\//]\<close>\<close>

definition DEFAULT_TRACING_ORIGINS :: "origin list" where
  "DEFAULT_TRACING_ORIGINS = [Str ''localhost'', RegExp (\<lambda>v. prefix ''/'' v)]"

subsection \<open>Spans and transactions\<close>

text \<open>
  Modelled from the spec: the classes \<^verbatim>\<open>Span\<close> and \<^verbatim>\<open>Transaction\<close> live in
  \<^verbatim>\<open>../span\<close>, which is not among the sources. A span is the record of the fields the
  callbacks read or write; \<open>traceparent\<close> is what \<^verbatim>\<open>toTraceparent()\<close> returns.
\<close>

record span =
  spanId :: string
  traceparent :: string
  span_op :: string
  description :: string
  span_data :: "(string \<times> string) list"
  httpStatus :: "nat option"
  span_finished :: bool

definition setData :: "string \<Rightarrow> string \<Rightarrow> span \<Rightarrow> span" where
  "setData k v s = s\<lparr>span_data := AList.update k v (span_data s)\<rparr>"

definition setHttpStatus :: "nat \<Rightarrow> span \<Rightarrow> span" where
  "setHttpStatus c s = s\<lparr>httpStatus := Some c\<rparr>"

definition finish :: "span \<Rightarrow> span" where
  "finish s = s\<lparr>span_finished := True\<rparr>"

text \<open>The argument of \<^verbatim>\<open>startChild\<close>.\<close>

record span_context =
  ctx_data :: "(string \<times> string) list"
  ctx_description :: string
  ctx_op :: string

text \<open>
  A transaction is known to the callbacks only through \<^verbatim>\<open>startChild\<close>;
  \<^verbatim>\<open>getActiveTransaction()\<close> is a parameter of the callbacks, \<open>None\<close> when no
  transaction is active.
\<close>

record transaction =
  startChild :: "span_context \<Rightarrow> span"

subsection \<open>The state of one instrumentation\<close>

record state =
  urlMap :: "string \<rightharpoonup> bool"
  spans :: "string \<rightharpoonup> span"
  matcherCalls :: nat
  started :: "span list"
  finished :: "span list"
  thrown :: "error list"

definition initial_state :: state where
  "initial_state =
     \<lparr>urlMap = Map.empty, spans = Map.empty, matcherCalls = 0, started = [], finished = [],
      thrown = []\<rparr>"

subsection \<open>Options\<close>

record RequestInstrumentationOptions =
  tracingOrigins :: "origin list"
  traceFetch :: bool
  traceXHR :: bool
  shouldCreateSpanForRequest :: "(string \<Rightarrow> bool) option"

definition defaultRequestInstrumentionOptions :: RequestInstrumentationOptions where
  "defaultRequestInstrumentionOptions =
     \<lparr>tracingOrigins = DEFAULT_TRACING_ORIGINS, traceFetch = True, traceXHR = True,
      shouldCreateSpanForRequest = None\<rparr>"

subsection \<open>The origin filter\<close>

text \<open>One call of \<^verbatim>\<open>isMatchingPattern\<close>, counted.\<close>

definition matchPattern :: "string \<Rightarrow> origin \<Rightarrow> state \<Rightarrow> bool \<times> state" where
  "matchPattern v p st = (isMatchingPattern v p, st\<lparr>matcherCalls := Suc (matcherCalls st)\<rparr>)"

text \<open>\<^verbatim>\<open>origins.some(origin => isMatchingPattern(url, origin))\<close>: stops at the first match.\<close>

fun some_origin :: "string \<Rightarrow> origin list \<Rightarrow> state \<Rightarrow> bool \<times> state" where
  "some_origin url [] st = (False, st)"
| "some_origin url (p # ps) st =
     (let (m, st1) = matchPattern url p st
      in if m then (True, st1) else some_origin url ps st1)"

text \<open>
  \<^verbatim>\<open>
  const defaultShouldCreateSpan = (url: string): boolean => {
    if (urlMap[url]) {
      return urlMap[url];
    }
    const origins = tracingOrigins;
    urlMap[url] =
      origins.some((origin: string | RegExp) => isMatchingPattern(url, origin)) &&
      !isMatchingPattern(url, 'sentry_key');
    return urlMap[url];
  };
  \<close>
  The test \<^verbatim>\<open>if (urlMap[url])\<close> is one of truthiness: it succeeds for a stored
  \<^verbatim>\<open>true\<close> and for an inherited member, which is then returned as it is. The callers
  test the returned value for truthiness again, so the result here is that truthiness.
\<close>

fun truthy_entry :: "bool property \<Rightarrow> bool" where
  "truthy_entry (Own b) = b"
| "truthy_entry Inherited = True"
| "truthy_entry Absent = False"

definition defaultShouldCreateSpan :: "origin list \<Rightarrow> string \<Rightarrow> state \<Rightarrow> bool \<times> state" where
  "defaultShouldCreateSpan origins url st =
     (if truthy_entry (get_property (urlMap st) url) then (True, st)
      else
        (let (anyOrigin, st1) = some_origin url origins st;
             (decision, st2) =
               (if anyOrigin
                then (let (own, st1a) = matchPattern url (Str ''sentry_key'') st1
                      in (\<not> own, st1a))
                else (False, st1))
         in (decision, st2\<lparr>urlMap := (urlMap st2)(url \<mapsto> decision)\<rparr>)))"

text \<open>
  \<^verbatim>\<open>
  let shouldCreateSpan = defaultShouldCreateSpan;
  if (typeof shouldCreateSpanForRequest === 'function') {
    shouldCreateSpan = (url: string) => {
      return defaultShouldCreateSpan(url) && shouldCreateSpanForRequest(url);
    };
  }
  \<close>
\<close>

definition shouldCreateSpan ::
  "RequestInstrumentationOptions \<Rightarrow> string \<Rightarrow> state \<Rightarrow> bool \<times> state" where
  "shouldCreateSpan opts url st =
     (case shouldCreateSpanForRequest opts of
        None \<Rightarrow> defaultShouldCreateSpan (tracingOrigins opts) url st
      | Some f \<Rightarrow>
          (let (d, st1) = defaultShouldCreateSpan (tracingOrigins opts) url st
           in (if d then f url else False, st1)))"

text \<open>The filter asked about a list of URLs, one after the other.\<close>

fun filter_calls :: "origin list \<Rightarrow> string list \<Rightarrow> state \<Rightarrow> state" where
  "filter_calls origins [] st = st"
| "filter_calls origins (u # us) st =
     filter_calls origins us (snd (defaultShouldCreateSpan origins u st))"

text \<open>What the filter is to compute for a URL.\<close>

definition eligible :: "origin list \<Rightarrow> string \<Rightarrow> bool" where
  "eligible origins url =
     ((\<exists>p \<in> set origins. isMatchingPattern url p) \<and> \<not> isMatchingPattern url (Str ''sentry_key''))"

text \<open>The cache holds \<^verbatim>\<open>true\<close> only for eligible URLs.\<close>

definition urlMap_sound :: "origin list \<Rightarrow> state \<Rightarrow> bool" where
  "urlMap_sound origins st = (\<forall>u. urlMap st u = Some True \<longrightarrow> eligible origins u)"

text \<open>The number of pattern matches one computation of the decision performs.\<close>

fun some_calls :: "string \<Rightarrow> origin list \<Rightarrow> nat" where
  "some_calls url [] = 0"
| "some_calls url (p # ps) = (if isMatchingPattern url p then 1 else Suc (some_calls url ps))"

definition decision_calls :: "origin list \<Rightarrow> string \<Rightarrow> nat" where
  "decision_calls origins url =
     some_calls url origins + (if \<exists>p \<in> set origins. isMatchingPattern url p then 1 else 0)"

subsection \<open>Event data\<close>

type_synonym header_list = "(string \<times> string) list"

text \<open>
  A method of the browser that sets a header (\<^verbatim>\<open>append\<close> of a \<^verbatim>\<open>Headers\<close> object,
  \<^verbatim>\<open>setRequestHeader\<close> of a request): given a name, a value and the headers the
  object holds, it either throws or returns the headers the object holds afterwards.
  What it does with them (add at the end, combine with a value of the same name,
  ignore the call) is the browser's.
\<close>

type_synonym header_method = "string \<Rightarrow> string \<Rightarrow> header_list \<Rightarrow> error + header_list"

text \<open>
  The header sink of a fetch call, in the three shapes the callback tells apart: an
  object with an \<^verbatim>\<open>append\<close> method (what it holds, and the method), an array of
  \<^verbatim>\<open>[name, value]\<close> pairs, and a plain object (its properties in order).
\<close>

datatype headers =
    Headers header_list header_method
  | HeaderPairs header_list
  | HeaderRecord header_list

text \<open>
  \<^verbatim>\<open>args[0]\<close>: a URL, or a \<^verbatim>\<open>Request\<close> object with its own \<^verbatim>\<open>Headers\<close> object.
\<close>

datatype request_info = Url string | Request header_list header_method

text \<open>\<^verbatim>\<open>args[1]\<close>: the options object.\<close>

record request_init =
  init_headers :: "headers option"
  init_other :: "(string \<times> string) list"

record fetch_info =
  fetch_method :: string
  fetch_url :: string
  fetch_span :: "string option"

record response =
  status :: nat

text \<open>
  \<^verbatim>\<open>FetchData\<close>. Of \<^verbatim>\<open>args\<close> the callback touches the first two slots only;
  \<open>None\<close> is a slot that is \<^verbatim>\<open>undefined\<close>.
\<close>

record FetchData =
  arg0 :: "request_info option"
  arg1 :: "request_init option"
  fetchData :: "fetch_info option"
  fetch_response :: "response option"
  startTimestamp :: nat
  endTimestamp :: "nat option"

record sentry_xhr =
  xhr_method :: string
  xhr_url :: string
  status_code :: nat
  xhr_data :: "(string \<times> string) list"

text \<open>
  The \<^verbatim>\<open>xhr\<close> object of \<^verbatim>\<open>XHRData\<close>, with the headers set on the request so far.
\<close>

record xhr =
  sentry_xhr :: "sentry_xhr option"
  sentry_xhr_span_id :: "string option"
  sentry_own_request :: bool
  setRequestHeader :: "header_method option"
  requestHeaders :: header_list

record XHRData =
  xhr :: "xhr option"
  xhr_startTimestamp :: nat
  xhr_endTimestamp :: "nat option"

text \<open>
  The headers in the options of a fetch event, and the sink the fetch callback writes to:
  the \<^verbatim>\<open>Headers\<close> object of a \<^verbatim>\<open>Request\<close>, else the headers in the options.
\<close>

definition options_headers :: "FetchData \<Rightarrow> headers option" where
  "options_headers handlerData =
     (case arg1 handlerData of None \<Rightarrow> None | Some options \<Rightarrow> init_headers options)"

definition header_sink :: "FetchData \<Rightarrow> headers option" where
  "header_sink handlerData =
     (case arg0 handlerData of
        Some (Request rh ap) \<Rightarrow> Some (Headers rh ap)
      | _ \<Rightarrow> options_headers handlerData)"

subsection \<open>The callbacks\<close>

text \<open>
  \<^verbatim>\<open>handlerData.endTimestamp && handlerData.fetchData.__span\<close> (and the same test of
  the XHR callback): the key of the event when both are truthy.
\<close>

definition end_key :: "nat option \<Rightarrow> string option \<Rightarrow> string option" where
  "end_key ts k =
     (case ts of
        None \<Rightarrow> None
      | Some t \<Rightarrow>
          (case k of
             None \<Rightarrow> None
           | Some key \<Rightarrow> if t \<noteq> 0 \<and> key \<noteq> [] then Some key else None))"

text \<open>
  \<^verbatim>\<open>
    const span = spans[handlerData.fetchData.__span];
    if (span) {
      const response = handlerData.response;
      if (response) {
        span.setHttpStatus(response.status);
      }
      span.finish();
      delete spans[handlerData.fetchData.__span];
    }
    return;
  \<close>
  When the key is not an own property but the name of an inherited member, \<^verbatim>\<open>span\<close>
  is that member: it is truthy and has no method \<^verbatim>\<open>setHttpStatus\<close> or
  \<^verbatim>\<open>finish\<close>, so the first call on it throws a \<^verbatim>\<open>TypeError\<close>, which leaves the
  callback.
\<close>

definition fetch_end :: "string \<Rightarrow> FetchData \<Rightarrow> state \<Rightarrow> state" where
  "fetch_end key handlerData st =
     (case get_property (spans st) key of
        Absent \<Rightarrow> st
      | Inherited \<Rightarrow>
          st\<lparr>thrown := thrown st @
               [TypeError (case fetch_response handlerData of
                             Some r \<Rightarrow> ''span.setHttpStatus is not a function''
                           | None \<Rightarrow> ''span.finish is not a function'')]\<rparr>
      | Own sp \<Rightarrow>
          (let span1 = (case fetch_response handlerData of
                          Some r \<Rightarrow> setHttpStatus (status r) sp
                        | None \<Rightarrow> sp);
               span2 = finish span1
           in st\<lparr>finished := finished st @ [span2], spans := (spans st)(key := None)\<rparr>))"

text \<open>
  \<^verbatim>\<open>
    let headers = options.headers;
    if (isInstanceOf(request, Request)) {
      headers = (request as Request).headers;
    }
    if (headers) {
      if (typeof headers.append === 'function') {
        headers.append('sentry-trace', span.toTraceparent());
      } else if (Array.isArray(headers)) {
        headers = [...headers, ['sentry-trace', span.toTraceparent()]];
      } else {
        headers = { ...headers, 'sentry-trace': span.toTraceparent() };
      }
    } else {
      headers = { 'sentry-trace': span.toTraceparent() };
    }
    options.headers = headers;
  \<close>
  \<^verbatim>\<open>append\<close> changes the \<^verbatim>\<open>Headers\<close> object in place: when it is the one of a
  \<^verbatim>\<open>Request\<close>, the request changes with it. When it throws, nothing catches the
  exception and \<^verbatim>\<open>options.headers\<close> is not assigned.
\<close>

definition fetch_headers ::
  "request_info option \<Rightarrow> request_init \<Rightarrow> string
     \<Rightarrow> error + (request_info option \<times> request_init)" where
  "fetch_headers request options tp =
     (let headers = (case request of
                       Some (Request rh ap) \<Rightarrow> Some (Headers rh ap)
                     | _ \<Rightarrow> init_headers options)
      in case headers of
           Some (Headers h ap) \<Rightarrow>
             (case ap ''sentry-trace'' tp h of
                Inl e \<Rightarrow> Inl e
              | Inr h1 \<Rightarrow>
                  Inr (case request of
                         Some (Request rh rap) \<Rightarrow> Some (Request h1 rap)
                       | _ \<Rightarrow> request,
                       options\<lparr>init_headers := Some (Headers h1 ap)\<rparr>))
         | Some (HeaderPairs h) \<Rightarrow>
             Inr (request,
                  options\<lparr>init_headers := Some (HeaderPairs (h @ [(''sentry-trace'', tp)]))\<rparr>)
         | Some (HeaderRecord h) \<Rightarrow>
             Inr (request,
                  options\<lparr>init_headers := Some (HeaderRecord (AList.update ''sentry-trace'' tp h))\<rparr>)
         | None \<Rightarrow>
             Inr (request, options\<lparr>init_headers := Some (HeaderRecord [(''sentry-trace'', tp)])\<rparr>))"

text \<open>The properties of \<^verbatim>\<open>handlerData.fetchData\<close>, as the spread copies them.\<close>

definition fetch_info_props :: "fetch_info \<Rightarrow> (string \<times> string) list" where
  "fetch_info_props fd =
     [(''method'', fetch_method fd), (''url'', fetch_url fd)] @
     (case fetch_span fd of None \<Rightarrow> [] | Some k \<Rightarrow> [(''__span'', k)])"

text \<open>
  \<^verbatim>\<open>
    const span = activeTransaction.startChild({
      data: { ...handlerData.fetchData, type: 'fetch' },
      description: `${handlerData.fetchData.method} ${handlerData.fetchData.url}`,
      op: 'http',
    });
    handlerData.fetchData.__span = span.spanId;
    spans[span.spanId] = span;
    const request = (handlerData.args[0] = handlerData.args[0] as string | Request);
    const options = (handlerData.args[1] = (handlerData.args[1] as { [key: string]: any }) || {});
    ...
  \<close>
\<close>

definition fetch_context :: "fetch_info \<Rightarrow> span_context" where
  "fetch_context fd =
     \<lparr>ctx_data = AList.update ''type'' ''fetch'' (fetch_info_props fd),
      ctx_description = fetch_method fd @ '' '' @ fetch_url fd,
      ctx_op = ''http''\<rparr>"

definition fetch_start ::
  "transaction \<Rightarrow> fetch_info \<Rightarrow> FetchData \<Rightarrow> state \<Rightarrow> FetchData \<times> state" where
  "fetch_start activeTransaction fd handlerData st =
     (let sp = startChild activeTransaction (fetch_context fd);
          st1 = st\<lparr>started := started st @ [sp]\<rparr>;
          fd1 = fd\<lparr>fetch_span := Some (spanId sp)\<rparr>;
          st2 = st1\<lparr>spans := (spans st1)(spanId sp \<mapsto> sp)\<rparr>;
          request = arg0 handlerData;
          options = (case arg1 handlerData of
                       Some opts \<Rightarrow> opts
                     | None \<Rightarrow> \<lparr>init_headers = None, init_other = []\<rparr>)
      in case fetch_headers request options (traceparent sp) of
           Inl e \<Rightarrow>
             (handlerData\<lparr>fetchData := Some fd1, arg1 := Some options\<rparr>,
              st2\<lparr>thrown := thrown st2 @ [e]\<rparr>)
         | Inr (request1, options1) \<Rightarrow>
             (handlerData\<lparr>fetchData := Some fd1, arg0 := request1, arg1 := Some options1\<rparr>,
              st2))"

text \<open>
  \<^verbatim>\<open>_fetchCallback(handlerData, shouldCreateSpan, spans)\<close>. The result of
  \<^verbatim>\<open>getActiveTransaction()\<close> is the first argument; \<^verbatim>\<open>shouldCreateSpan\<close> reads
  and writes the state, as the closure it is.
\<close>

definition fetchCallback ::
  "transaction option \<Rightarrow> (string \<Rightarrow> state \<Rightarrow> bool \<times> state) \<Rightarrow> FetchData \<Rightarrow> state
     \<Rightarrow> FetchData \<times> state" where
  "fetchCallback activeTransaction shouldCreate handlerData st =
     (case fetchData handlerData of
        None \<Rightarrow> (handlerData, st)
      | Some fd \<Rightarrow>
          (let (ok, st1) = shouldCreate (fetch_url fd) st
           in if \<not> ok then (handlerData, st1)
              else
                (case end_key (endTimestamp handlerData) (fetch_span fd) of
                   Some key \<Rightarrow> (handlerData, fetch_end key handlerData st1)
                 | None \<Rightarrow>
                     (case activeTransaction of
                        None \<Rightarrow> (handlerData, st1)
                      | Some tx \<Rightarrow> fetch_start tx fd handlerData st1))))"

text \<open>
  \<^verbatim>\<open>
    const span = spans[handlerData.xhr.__sentry_xhr_span_id__];
    if (span) {
      span.setData('url', xhr.url);
      span.setData('method', xhr.method);
      span.setHttpStatus(xhr.status_code);
      span.finish();
      delete spans[handlerData.xhr.__sentry_xhr_span_id__];
    }
    return;
  \<close>
  For the name of an inherited member that is not an own property, \<^verbatim>\<open>span.setData\<close>
  throws a \<^verbatim>\<open>TypeError\<close>.
\<close>

definition xhr_end :: "string \<Rightarrow> sentry_xhr \<Rightarrow> state \<Rightarrow> state" where
  "xhr_end key sx st =
     (case get_property (spans st) key of
        Absent \<Rightarrow> st
      | Inherited \<Rightarrow> st\<lparr>thrown := thrown st @ [TypeError ''span.setData is not a function'']\<rparr>
      | Own sp \<Rightarrow>
          (let span1 = setData ''url'' (xhr_url sx) sp;
               span2 = setData ''method'' (xhr_method sx) span1;
               span3 = setHttpStatus (status_code sx) span2;
               span4 = finish span3
           in st\<lparr>finished := finished st @ [span4], spans := (spans st)(key := None)\<rparr>))"

text \<open>
  \<^verbatim>\<open>
    const span = activeTransaction.startChild({
      data: { ...xhr.data, type: 'xhr' },
      description: `${xhr.method} ${xhr.url}`,
      op: 'http',
    });
    handlerData.xhr.__sentry_xhr_span_id__ = span.spanId;
    spans[handlerData.xhr.__sentry_xhr_span_id__] = span;
    if (handlerData.xhr.setRequestHeader) {
      try {
        handlerData.xhr.setRequestHeader('sentry-trace', span.toTraceparent());
      } catch (_) {
      }
    }
  \<close>
\<close>

definition xhr_context :: "sentry_xhr \<Rightarrow> span_context" where
  "xhr_context sx =
     \<lparr>ctx_data = AList.update ''type'' ''xhr'' (xhr_data sx),
      ctx_description = xhr_method sx @ '' '' @ xhr_url sx,
      ctx_op = ''http''\<rparr>"

definition xhr_start :: "transaction \<Rightarrow> sentry_xhr \<Rightarrow> xhr \<Rightarrow> state \<Rightarrow> xhr \<times> state" where
  "xhr_start activeTransaction sx x st =
     (let sp = startChild activeTransaction (xhr_context sx);
          st1 = st\<lparr>started := started st @ [sp]\<rparr>;
          x1 = x\<lparr>sentry_xhr_span_id := Some (spanId sp)\<rparr>;
          st2 = st1\<lparr>spans := (spans st1)(spanId sp \<mapsto> sp)\<rparr>;
          x2 = (case setRequestHeader x1 of
                  None \<Rightarrow> x1
                | Some set_header \<Rightarrow>
                    (case set_header ''sentry-trace'' (traceparent sp) (requestHeaders x1) of
                       Inl _ \<Rightarrow> x1
                     | Inr hs \<Rightarrow> x1\<lparr>requestHeaders := hs\<rparr>))
      in (x2, st2))"

text \<open>\<^verbatim>\<open>xhrCallback(handlerData, shouldCreateSpan, spans)\<close>; \<open>None\<close> is a missing \<^verbatim>\<open>handlerData\<close>.\<close>

definition xhrCallback ::
  "transaction option \<Rightarrow> (string \<Rightarrow> state \<Rightarrow> bool \<times> state) \<Rightarrow> XHRData option \<Rightarrow> state
     \<Rightarrow> XHRData option \<times> state" where
  "xhrCallback activeTransaction shouldCreate handlerData st =
     (case handlerData of
        None \<Rightarrow> (handlerData, st)
      | Some hdata \<Rightarrow>
          (case xhr hdata of
             None \<Rightarrow> (handlerData, st)
           | Some x \<Rightarrow>
               (case sentry_xhr x of
                  None \<Rightarrow> (handlerData, st)
                | Some sx \<Rightarrow>
                    (let (ok, st1) = shouldCreate (xhr_url sx) st
                     in if \<not> ok then (handlerData, st1)
                        else if sentry_own_request x then (handlerData, st1)
                        else
                          (case end_key (xhr_endTimestamp hdata) (sentry_xhr_span_id x) of
                             Some key \<Rightarrow> (handlerData, xhr_end key sx st1)
                           | None \<Rightarrow>
                               (case activeTransaction of
                                  None \<Rightarrow> (handlerData, st1)
                                | Some tx \<Rightarrow>
                                    (let (x1, st2) = xhr_start tx sx x st1
                                     in (Some (hdata\<lparr>xhr := Some x1\<rparr>), st2))))))))"

section \<open>The sampling decision\<close>

text \<open>
  Modelled from the spec: the function that fixes a transaction's sampling decision
  (\<^verbatim>\<open>sample\<close> in \<^verbatim>\<open>../hubextensions\<close>) is not among the sources, only its tests
  are. The definitions follow section 4.1 of the specification, "Decision precedence,
  evaluated in order, first match wins".
\<close>

datatype SamplingDecision = Unset | Sampled | NotSampled

text \<open>A configured rate or a sampler's return value: a boolean, a number, or anything else.\<close>

datatype sample_value = BoolValue bool | NumValue real | OtherValue

record SamplingContext =
  transaction_name :: string
  explicit_sampled :: SamplingDecision
  parentSampled :: "bool option"

record sampling_options =
  sampleRate :: "sample_value option"
  sampler :: "(SamplingContext \<Rightarrow> sample_value) option"

definition decision_of_bool :: "bool \<Rightarrow> SamplingDecision" where
  "decision_of_bool b = (if b then Sampled else NotSampled)"

text \<open>
  Modelled from the spec: "boolean passes through; numeric values are validated to be
  finite numbers in [0,1] and used as a probability against a uniform random draw. If
  the returned value fails validation [...], emit a diagnostic and treat tracing for
  this transaction as disabled". The second component says that a diagnostic is
  emitted; \<open>draw\<close> is the uniform random draw in [0,1).
\<close>

definition decide_value :: "sample_value \<Rightarrow> real \<Rightarrow> SamplingDecision \<times> bool" where
  "decide_value v draw =
     (case v of
        BoolValue b \<Rightarrow> (decision_of_bool b, False)
      | NumValue r \<Rightarrow>
          if 0 \<le> r \<and> r \<le> 1 then (decision_of_bool (draw < r), False) else (NotSampled, True)
      | OtherValue \<Rightarrow> (NotSampled, True))"

text \<open>
  Modelled from the spec: the five rules of section 4.1, in order: an explicit value is
  kept; else the sampler decides; else the parent's decision is copied; else the fixed
  rate decides; else tracing is off.
\<close>

definition sample :: "sampling_options \<Rightarrow> SamplingContext \<Rightarrow> real \<Rightarrow> SamplingDecision \<times> bool" where
  "sample opts ctx draw =
     (if explicit_sampled ctx \<noteq> Unset then (explicit_sampled ctx, False)
      else
        (case sampler opts of
           Some f \<Rightarrow> decide_value (f ctx) draw
         | None \<Rightarrow>
             (case parentSampled ctx of
                Some b \<Rightarrow> (decision_of_bool b, False)
              | None \<Rightarrow>
                  (case sampleRate opts of
                     Some v \<Rightarrow> decide_value v draw
                   | None \<Rightarrow> (NotSampled, False)))))"

section \<open>Concrete inputs\<close>

text \<open>The inputs at which the theorems below are instantiated.\<close>

definition example_span :: "string \<Rightarrow> span_context \<Rightarrow> span" where
  "example_span sid c =
     \<lparr>spanId = sid, traceparent = ''trace-'' @ sid @ ''-1'', span_op = ctx_op c,
      description = ctx_description c, span_data = ctx_data c, httpStatus = None,
      span_finished = False\<rparr>"

definition example_transaction :: "string \<Rightarrow> transaction" where
  "example_transaction sid = \<lparr>startChild = example_span sid\<rparr>"

definition example_fetch_info :: "string \<Rightarrow> fetch_info" where
  "example_fetch_info url = \<lparr>fetch_method = ''GET'', fetch_url = url, fetch_span = None\<rparr>"

definition example_fetch :: "string \<Rightarrow> request_init option \<Rightarrow> FetchData" where
  "example_fetch url init =
     \<lparr>arg0 = Some (Url url), arg1 = init, fetchData = Some (example_fetch_info url),
      fetch_response = None, startTimestamp = 1000, endTimestamp = None\<rparr>"

definition example_sentry_xhr :: "string \<Rightarrow> sentry_xhr" where
  "example_sentry_xhr url =
     \<lparr>xhr_method = ''GET'', xhr_url = url, status_code = 0, xhr_data = []\<rparr>"

definition example_xhr_object :: "string \<Rightarrow> bool \<Rightarrow> header_method option \<Rightarrow> xhr" where
  "example_xhr_object url own set_header =
     \<lparr>sentry_xhr = Some (example_sentry_xhr url), sentry_xhr_span_id = None,
      sentry_own_request = own, setRequestHeader = set_header, requestHeaders = []\<rparr>"

definition example_xhr :: "string \<Rightarrow> bool \<Rightarrow> header_method option \<Rightarrow> XHRData" where
  "example_xhr url own set_header =
     \<lparr>xhr = Some (example_xhr_object url own set_header),
      xhr_startTimestamp = 1000, xhr_endTimestamp = None\<rparr>"

text \<open>
  Three header methods: one that adds the header at the end, one that throws (a request
  that is not open, headers that may not be changed), and one that combines the value
  with a value already there under the name.
\<close>

definition set_header_ok :: header_method where
  "set_header_ok k v hs = Inr (hs @ [(k, v)])"

definition set_header_throws :: header_method where
  "set_header_throws k v hs = Inl (Error ''InvalidStateError'')"

definition set_header_combines :: header_method where
  "set_header_combines k v hs =
     Inr (case map_of hs k of
            None \<Rightarrow> hs @ [(k, v)]
          | Some old \<Rightarrow> AList.update k (old @ '', '' @ v) hs)"

text \<open>
  The state after the start of a fetch of \<^verbatim>\<open>/first\<close> under the default options: the
  span \<^verbatim>\<open>a1\<close> is registered. The event as the callback left it, and the same event
  when the response has arrived.
\<close>

definition example_registered :: state where
  "example_registered =
     snd (fetchCallback (Some (example_transaction ''a1''))
            (shouldCreateSpan defaultRequestInstrumentionOptions)
            (example_fetch ''/first'' None) initial_state)"

definition example_fetch_started :: FetchData where
  "example_fetch_started =
     fst (fetchCallback (Some (example_transaction ''a1''))
            (shouldCreateSpan defaultRequestInstrumentionOptions)
            (example_fetch ''/first'' None) initial_state)"

definition example_fetch_ended :: FetchData where
  "example_fetch_ended =
     example_fetch_started\<lparr>fetch_response := Some \<lparr>status = 200\<rparr>, endTimestamp := Some 2000\<rparr>"

text \<open>
  The same for an XHR request: the state after its start, and the event when the
  response has arrived (the span id and the header were set at the start).
\<close>

definition example_xhr_registered :: state where
  "example_xhr_registered =
     snd (xhrCallback (Some (example_transaction ''a1''))
            (shouldCreateSpan defaultRequestInstrumentionOptions)
            (Some (example_xhr ''/first'' False (Some set_header_ok))) initial_state)"

definition example_xhr_ended :: XHRData where
  "example_xhr_ended =
     \<lparr>xhr = Some ((example_xhr_object ''/first'' False (Some set_header_ok))
                   \<lparr>sentry_xhr := Some ((example_sentry_xhr ''/first'')\<lparr>status_code := 200\<rparr>),
                    sentry_xhr_span_id := Some ''a1'',
                    requestHeaders := [(''sentry-trace'', ''trace-a1-1'')]\<rparr>),
      xhr_startTimestamp = 1000, xhr_endTimestamp = Some 2000\<rparr>"

text \<open>
  Events that look like the end of a fetch and of an XHR request: the URL, the key and the
  \<^verbatim>\<open>endTimestamp\<close> are given, the response has arrived with status 200.
\<close>

definition example_fetch_end :: "string \<Rightarrow> string \<Rightarrow> nat \<Rightarrow> FetchData" where
  "example_fetch_end url key t =
     \<lparr>arg0 = Some (Url url), arg1 = None,
      fetchData = Some ((example_fetch_info url)\<lparr>fetch_span := Some key\<rparr>),
      fetch_response = Some \<lparr>status = 200\<rparr>, startTimestamp = 1000, endTimestamp = Some t\<rparr>"

definition example_xhr_end :: "string \<Rightarrow> string \<Rightarrow> bool \<Rightarrow> nat \<Rightarrow> XHRData" where
  "example_xhr_end url key own t =
     \<lparr>xhr = Some ((example_xhr_object url own (Some set_header_ok))
                   \<lparr>sentry_xhr := Some ((example_sentry_xhr url)\<lparr>status_code := 200\<rparr>),
                    sentry_xhr_span_id := Some key\<rparr>),
      xhr_startTimestamp = 1000, xhr_endTimestamp = Some t\<rparr>"

text \<open>The state after the start of a fetch whose new span has the empty string as its id.\<close>

definition example_registered_empty_key :: state where
  "example_registered_empty_key =
     snd (fetchCallback (Some (example_transaction ''''))
            (shouldCreateSpan defaultRequestInstrumentionOptions)
            (example_fetch ''/first'' None) initial_state)"

text \<open>
  Fetch options whose headers are an object with the given \<^verbatim>\<open>append\<close> method, an
  array of pairs, and a plain object.
\<close>

definition example_init_headers :: "header_method \<Rightarrow> request_init" where
  "example_init_headers ap =
     \<lparr>init_headers = Some (Headers [(''accept'', ''text/html''), (''sentry-trace'', ''old'')] ap),
      init_other = [(''method'', ''GET'')]\<rparr>"


definition example_init_pairs :: request_init where
  "example_init_pairs =
     \<lparr>init_headers = Some (HeaderPairs [(''accept'', ''text/html''), (''sentry-trace'', ''old'')]),
      init_other = [(''method'', ''GET'')]\<rparr>"

definition example_init_record :: request_init where
  "example_init_record =
     \<lparr>init_headers = Some (HeaderRecord [(''sentry-trace'', ''old''), (''accept'', ''text/html'')]),
      init_other = [(''method'', ''GET'')]\<rparr>"

section \<open>Properties of the origin filter\<close>

lemma some_origin_eq:
  "some_origin url ps st =
     (\<exists>p \<in> set ps. isMatchingPattern url p,
      st\<lparr>matcherCalls := matcherCalls st + some_calls url ps\<rparr>)"
  by (induction ps arbitrary: st) (auto simp: matchPattern_def)

lemma defaultShouldCreateSpan_eq:
  "defaultShouldCreateSpan origins url st =
     (if truthy_entry (get_property (urlMap st) url) then (True, st)
      else (eligible origins url,
            st\<lparr>matcherCalls := matcherCalls st + decision_calls origins url,
               urlMap := (urlMap st)(url \<mapsto> eligible origins url)\<rparr>))"
  by (auto simp: defaultShouldCreateSpan_def some_origin_eq matchPattern_def eligible_def
      decision_calls_def)

lemma truthy_entry_own:
  "u \<notin> set Object_prototype_members \<Longrightarrow>
     truthy_entry (get_property m u) = (m u = Some True)"
  by (cases "m u") (auto simp: get_property_def)

lemma truthy_entry_stored: "m u = Some b \<Longrightarrow> truthy_entry (get_property m u) = b"
  by (simp add: get_property_def)

lemma urlMap_sound_initial: "urlMap_sound origins initial_state"
  by (simp add: urlMap_sound_def initial_state_def)

lemma urlMap_sound_step:
  "urlMap_sound origins st \<Longrightarrow> urlMap_sound origins (snd (defaultShouldCreateSpan origins u st))"
  by (simp add: urlMap_sound_def defaultShouldCreateSpan_eq)

lemma urlMap_sound_filter_calls:
  "urlMap_sound origins st \<Longrightarrow> urlMap_sound origins (filter_calls origins us st)"
  by (induction us arbitrary: st) (simp_all add: urlMap_sound_step)

text \<open>
  For a URL that is not the name of a member of \<^verbatim>\<open>Object.prototype\<close> the filter
  decides what it is to decide, whatever it was asked before.
\<close>

lemma defaultShouldCreateSpan_sound:
  "urlMap_sound origins st \<Longrightarrow> u \<notin> set Object_prototype_members \<Longrightarrow>
     fst (defaultShouldCreateSpan origins u st) = eligible origins u"
  by (auto simp: urlMap_sound_def defaultShouldCreateSpan_eq truthy_entry_own)

lemma defaultShouldCreateSpan_not_inherited:
  "u \<notin> set Object_prototype_members \<Longrightarrow>
     fst (defaultShouldCreateSpan origins u (filter_calls origins us initial_state)) =
       ((\<exists>p \<in> set origins. isMatchingPattern u p) \<and> \<not> isMatchingPattern u (Str ''sentry_key''))"
  using defaultShouldCreateSpan_sound [OF urlMap_sound_filter_calls [OF urlMap_sound_initial]]
  by (simp add: eligible_def)

lemma defaultShouldCreateSpan_repeat_decision:
  "fst (defaultShouldCreateSpan origins u (snd (defaultShouldCreateSpan origins u st))) =
     fst (defaultShouldCreateSpan origins u st)"
  by (simp add: defaultShouldCreateSpan_eq truthy_entry_stored)

lemma defaultShouldCreateSpan_repeat_true:
  "fst (defaultShouldCreateSpan origins u st) \<Longrightarrow>
     defaultShouldCreateSpan origins u (snd (defaultShouldCreateSpan origins u st)) =
       (True, snd (defaultShouldCreateSpan origins u st))"
  by (simp add: defaultShouldCreateSpan_eq truthy_entry_stored split: if_splits)

lemma defaultShouldCreateSpan_repeat_false:
  "\<not> fst (defaultShouldCreateSpan origins u st) \<Longrightarrow>
     matcherCalls (snd (defaultShouldCreateSpan origins u (snd (defaultShouldCreateSpan origins u st)))) =
       matcherCalls (snd (defaultShouldCreateSpan origins u st)) + decision_calls origins u"
  by (simp add: defaultShouldCreateSpan_eq truthy_entry_stored split: if_splits)

lemma shouldCreateSpan_spans [simp]: "spans (snd (shouldCreateSpan opts u st)) = spans st"
  by (simp add: shouldCreateSpan_def defaultShouldCreateSpan_eq split: option.splits prod.splits)

lemma shouldCreateSpan_started [simp]: "started (snd (shouldCreateSpan opts u st)) = started st"
  by (simp add: shouldCreateSpan_def defaultShouldCreateSpan_eq split: option.splits prod.splits)

lemma shouldCreateSpan_finished [simp]: "finished (snd (shouldCreateSpan opts u st)) = finished st"
  by (simp add: shouldCreateSpan_def defaultShouldCreateSpan_eq split: option.splits prod.splits)

lemma shouldCreateSpan_thrown [simp]: "thrown (snd (shouldCreateSpan opts u st)) = thrown st"
  by (simp add: shouldCreateSpan_def defaultShouldCreateSpan_eq split: option.splits prod.splits)

lemmas example_defs =
  example_span_def example_transaction_def example_fetch_info_def example_fetch_def
  example_sentry_xhr_def example_xhr_object_def example_xhr_def
  set_header_ok_def set_header_throws_def set_header_combines_def
  example_registered_def example_fetch_started_def
  example_fetch_ended_def example_xhr_registered_def
  example_xhr_ended_def example_init_pairs_def example_init_record_def
  example_fetch_end_def example_xhr_end_def example_registered_empty_key_def
  example_init_headers_def
  defaultRequestInstrumentionOptions_def DEFAULT_TRACING_ORIGINS_def initial_state_def

lemmas filter_defs = defaultShouldCreateSpan_def matchPattern_def get_property_def
  Object_prototype_members_def

text \<open>
  C1. Calling the origin filter twice with the same URL gives the same decision, and
  the patterns are matched on the first call only. The code serves a repeated call from
  the cache only when the stored decision is \<^verbatim>\<open>true\<close>: for the URL
  \<^verbatim>\<open>http://example.com/api\<close>, which the default origins do not match, the first call
  performs two pattern matches and stores \<^verbatim>\<open>false\<close>, and the second call performs
  the same two matches again. (The decision is the same both times.)
\<close>

theorem C1_false_decision_is_recomputed:
  "fst (defaultShouldCreateSpan DEFAULT_TRACING_ORIGINS ''http://example.com/api'' initial_state) = False \<and>
   urlMap (snd (defaultShouldCreateSpan DEFAULT_TRACING_ORIGINS ''http://example.com/api'' initial_state))
     ''http://example.com/api'' = Some False \<and>
   matcherCalls (snd (defaultShouldCreateSpan DEFAULT_TRACING_ORIGINS ''http://example.com/api'' initial_state)) = 2 \<and>
   fst (defaultShouldCreateSpan DEFAULT_TRACING_ORIGINS ''http://example.com/api''
     (snd (defaultShouldCreateSpan DEFAULT_TRACING_ORIGINS ''http://example.com/api'' initial_state))) = False \<and>
   matcherCalls (snd (defaultShouldCreateSpan DEFAULT_TRACING_ORIGINS ''http://example.com/api''
     (snd (defaultShouldCreateSpan DEFAULT_TRACING_ORIGINS ''http://example.com/api'' initial_state)))) = 4"
  by (simp add: filter_defs DEFAULT_TRACING_ORIGINS_def initial_state_def)

text \<open>
  C4. The default decision is to be true exactly when the URL matches at least one of
  the configured origins and does not match \<^verbatim>\<open>'sentry_key'\<close>. The code breaks this
  for a URL that is the name of a member of \<^verbatim>\<open>Object.prototype\<close>: for the URL
  \<^verbatim>\<open>constructor\<close>, which no default origin matches, the read of the cache finds the
  inherited function, which is truthy, and the filter returns it without matching any
  pattern; the fetch callback then starts a span for the request.
\<close>

theorem C4_inherited_key_is_eligible:
  "fst (defaultShouldCreateSpan DEFAULT_TRACING_ORIGINS ''constructor'' initial_state) = True \<and>
   matcherCalls (snd (defaultShouldCreateSpan DEFAULT_TRACING_ORIGINS ''constructor'' initial_state)) = 0 \<and>
   \<not> ((\<exists>p \<in> set DEFAULT_TRACING_ORIGINS. isMatchingPattern ''constructor'' p) \<and>
      \<not> isMatchingPattern ''constructor'' (Str ''sentry_key'')) \<and>
   started (snd (fetchCallback (Some (example_transaction ''a1''))
      (shouldCreateSpan defaultRequestInstrumentionOptions)
      (example_fetch ''constructor'' None) initial_state)) =
     [example_span ''a1'' (fetch_context (example_fetch_info ''constructor''))]"
  by (simp add: filter_defs example_defs shouldCreateSpan_def fetchCallback_def fetch_start_def
      fetch_headers_def end_key_def Let_def)

text \<open>
  C5. With a predicate \<^verbatim>\<open>shouldCreateSpanForRequest\<close> configured, the effective
  decision for a URL is the conjunction of the default decision and the predicate's
  result; so an effective decision of true implies a default decision of true.
\<close>

theorem C5_predicate_refines:
  "(shouldCreateSpanForRequest opts = Some p \<longrightarrow>
      fst (shouldCreateSpan opts u st) =
        (fst (defaultShouldCreateSpan (tracingOrigins opts) u st) \<and> p u)) \<and>
   (fst (shouldCreateSpan opts u st) \<longrightarrow> fst (defaultShouldCreateSpan (tracingOrigins opts) u st))"
  by (auto simp: shouldCreateSpan_def split: option.splits prod.splits)

theorem C5_predicate_refines_witness:
  "shouldCreateSpanForRequest
     (defaultRequestInstrumentionOptions\<lparr>shouldCreateSpanForRequest := Some (\<lambda>u. u \<noteq> ''/health'')\<rparr>) =
     Some (\<lambda>u. u \<noteq> ''/health'') \<and>
   fst (defaultShouldCreateSpan DEFAULT_TRACING_ORIGINS ''/health'' initial_state) \<and>
   \<not> fst (shouldCreateSpan
     (defaultRequestInstrumentionOptions\<lparr>shouldCreateSpanForRequest := Some (\<lambda>u. u \<noteq> ''/health'')\<rparr>)
      ''/health'' initial_state)"
  using C5_predicate_refines [of
      "defaultRequestInstrumentionOptions\<lparr>shouldCreateSpanForRequest := Some (\<lambda>u. u \<noteq> ''/health'')\<rparr>"
      "\<lambda>u. u \<noteq> ''/health''" "''/health''" initial_state]
  by (simp add: example_defs filter_defs)

section \<open>Properties of the callbacks\<close>

text \<open>The branches of the two callbacks, one lemma each.\<close>

lemma fetchCallback_ineligible:
  assumes "fetchData h = Some fd" and "\<not> fst (shouldCreate (fetch_url fd) st)"
  shows "fetchCallback tx shouldCreate h st = (h, snd (shouldCreate (fetch_url fd) st))"
  using assms by (simp add: fetchCallback_def case_prod_beta)

lemma fetchCallback_end:
  assumes "fetchData h = Some fd" and "fst (shouldCreate (fetch_url fd) st)"
    and "end_key (endTimestamp h) (fetch_span fd) = Some k"
  shows "fetchCallback tx shouldCreate h st = (h, fetch_end k h (snd (shouldCreate (fetch_url fd) st)))"
  using assms by (simp add: fetchCallback_def case_prod_beta)

lemma fetchCallback_start:
  assumes "fetchData h = Some fd" and "fst (shouldCreate (fetch_url fd) st)"
    and "end_key (endTimestamp h) (fetch_span fd) = None"
  shows "fetchCallback (Some tx) shouldCreate h st =
     fetch_start tx fd h (snd (shouldCreate (fetch_url fd) st))"
  using assms by (simp add: fetchCallback_def case_prod_beta)

lemma xhrCallback_ineligible:
  assumes "xhr h = Some x" and "sentry_xhr x = Some sx"
    and "\<not> fst (shouldCreate (xhr_url sx) st)"
  shows "xhrCallback tx shouldCreate (Some h) st = (Some h, snd (shouldCreate (xhr_url sx) st))"
  using assms by (simp add: xhrCallback_def case_prod_beta)

lemma xhrCallback_own:
  assumes "xhr h = Some x" and "sentry_xhr x = Some sx" and "sentry_own_request x"
  shows "xhrCallback tx shouldCreate (Some h) st = (Some h, snd (shouldCreate (xhr_url sx) st))"
  using assms by (simp add: xhrCallback_def case_prod_beta)

lemma xhrCallback_end:
  assumes "xhr h = Some x" and "sentry_xhr x = Some sx"
    and "fst (shouldCreate (xhr_url sx) st)" and "\<not> sentry_own_request x"
    and "end_key (xhr_endTimestamp h) (sentry_xhr_span_id x) = Some k"
  shows "xhrCallback tx shouldCreate (Some h) st =
     (Some h, xhr_end k sx (snd (shouldCreate (xhr_url sx) st)))"
  using assms by (simp add: xhrCallback_def case_prod_beta)

lemma xhrCallback_start:
  assumes "xhr h = Some x" and "sentry_xhr x = Some sx"
    and "fst (shouldCreate (xhr_url sx) st)" and "\<not> sentry_own_request x"
    and "end_key (xhr_endTimestamp h) (sentry_xhr_span_id x) = None"
  shows "xhrCallback (Some tx) shouldCreate (Some h) st =
     (Some (h\<lparr>xhr := Some (fst (xhr_start tx sx x (snd (shouldCreate (xhr_url sx) st))))\<rparr>),
      snd (xhr_start tx sx x (snd (shouldCreate (xhr_url sx) st))))"
  using assms by (simp add: xhrCallback_def case_prod_beta)

lemma xhrCallback_own_any:
  assumes "xhr h = Some x" and "sentry_own_request x"
  shows "fst (xhrCallback tx (shouldCreateSpan opts) (Some h) st) = Some h \<and>
     spans (snd (xhrCallback tx (shouldCreateSpan opts) (Some h) st)) = spans st \<and>
     started (snd (xhrCallback tx (shouldCreateSpan opts) (Some h) st)) = started st \<and>
     finished (snd (xhrCallback tx (shouldCreateSpan opts) (Some h) st)) = finished st \<and>
     thrown (snd (xhrCallback tx (shouldCreateSpan opts) (Some h) st)) = thrown st"
proof (cases "sentry_xhr x")
  case None
  with assms show ?thesis by (simp add: xhrCallback_def)
next
  case (Some sx)
  with assms show ?thesis by (simp add: xhrCallback_own)
qed

lemma xhr_start_throws:
  assumes "setRequestHeader x = Some f"
    and "f ''sentry-trace'' (traceparent (startChild tx (xhr_context sx))) (requestHeaders x) = Inl e"
  shows "xhr_start tx sx x st =
     (x\<lparr>sentry_xhr_span_id := Some (spanId (startChild tx (xhr_context sx)))\<rparr>,
      st\<lparr>started := started st @ [startChild tx (xhr_context sx)],
         spans := (spans st)(spanId (startChild tx (xhr_context sx)) \<mapsto> startChild tx (xhr_context sx))\<rparr>)"
  using assms by (simp add: xhr_start_def Let_def)

lemma fetch_start_spans:
  "spans (snd (fetch_start tx fd h st)) =
     (spans st)(spanId (startChild tx (fetch_context fd)) \<mapsto> startChild tx (fetch_context fd))"
  by (simp add: fetch_start_def Let_def split: sum.splits prod.splits)

lemma fetch_start_started:
  "started (snd (fetch_start tx fd h st)) = started st @ [startChild tx (fetch_context fd)]"
  by (simp add: fetch_start_def Let_def split: sum.splits prod.splits)

lemma xhr_start_spans:
  "spans (snd (xhr_start tx sx x st)) =
     (spans st)(spanId (startChild tx (xhr_context sx)) \<mapsto> startChild tx (xhr_context sx))"
  by (simp add: xhr_start_def Let_def)

lemma xhr_start_started:
  "started (snd (xhr_start tx sx x st)) = started st @ [startChild tx (xhr_context sx)]"
  by (simp add: xhr_start_def Let_def)

lemma xhr_start_thrown: "thrown (snd (xhr_start tx sx x st)) = thrown st"
  by (simp add: xhr_start_def Let_def)

lemma xhr_start_finished: "finished (snd (xhr_start tx sx x st)) = finished st"
  by (simp add: xhr_start_def Let_def)

lemma end_key_Some:
  "end_key (Some t) (Some k) = (if t \<noteq> 0 \<and> k \<noteq> [] then Some k else None)"
  by (simp add: end_key_def)

lemmas run_defs = shouldCreateSpan_def filter_defs
  end_key_def fetchCallback_def xhrCallback_def fetch_start_def xhr_start_def fetch_end_def
  xhr_end_def fetch_headers_def fetch_context_def xhr_context_def fetch_info_props_def
  setData_def setHttpStatus_def finish_def options_headers_def header_sink_def Let_def

lemma example_registered_eval:
  "example_registered =
     \<lparr>urlMap = [''/first'' \<mapsto> True],
      spans = [''a1'' \<mapsto> example_span ''a1'' (fetch_context (example_fetch_info ''/first''))],
      matcherCalls = 3,
      started = [example_span ''a1'' (fetch_context (example_fetch_info ''/first''))],
      finished = [], thrown = []\<rparr>"
  by (simp add: example_defs run_defs)

lemma example_xhr_registered_eval:
  "example_xhr_registered =
     \<lparr>urlMap = [''/first'' \<mapsto> True],
      spans = [''a1'' \<mapsto> example_span ''a1'' (xhr_context (example_sentry_xhr ''/first''))],
      matcherCalls = 3,
      started = [example_span ''a1'' (xhr_context (example_sentry_xhr ''/first''))],
      finished = [], thrown = []\<rparr>"
  by (simp add: example_defs run_defs)

lemma example_fetch_ended_eval:
  "example_fetch_ended =
     \<lparr>arg0 = Some (Url ''/first''),
      arg1 = Some \<lparr>init_headers = Some (HeaderRecord [(''sentry-trace'', ''trace-a1-1'')]),
                    init_other = []\<rparr>,
      fetchData = Some ((example_fetch_info ''/first'')\<lparr>fetch_span := Some ''a1''\<rparr>),
      fetch_response = Some \<lparr>status = 200\<rparr>, startTimestamp = 1000,
      endTimestamp = Some 2000\<rparr>"
  by (simp add: example_defs run_defs)

lemma cached_eligible:
  "urlMap st u = Some True \<Longrightarrow> shouldCreateSpanForRequest opts = None \<Longrightarrow>
     shouldCreateSpan opts u st = (True, st)"
  by (simp add: shouldCreateSpan_def defaultShouldCreateSpan_def get_property_def)

text \<open>
  C7. A start event whose URL is not eligible has no effect: the event (its arguments
  and header sink included) is returned as it came, the span registry is unchanged, no
  span is started, none is finished and nothing is thrown. Only the cache of the origin filter, which
  resolved the eligibility, may have changed. The first part is the fetch callback, the
  second the XHR callback.
\<close>

theorem C7_ineligible_no_effect:
  "(fetchData h = Some fd \<and> \<not> fst (shouldCreateSpan opts (fetch_url fd) st) \<longrightarrow>
      fst (fetchCallback tx (shouldCreateSpan opts) h st) = h \<and>
      spans (snd (fetchCallback tx (shouldCreateSpan opts) h st)) = spans st \<and>
      started (snd (fetchCallback tx (shouldCreateSpan opts) h st)) = started st \<and>
      finished (snd (fetchCallback tx (shouldCreateSpan opts) h st)) = finished st \<and>
      thrown (snd (fetchCallback tx (shouldCreateSpan opts) h st)) = thrown st) \<and>
   (xhr xd = Some x \<and> sentry_xhr x = Some sx \<and>
    \<not> fst (shouldCreateSpan opts (xhr_url sx) st) \<longrightarrow>
      fst (xhrCallback tx (shouldCreateSpan opts) (Some xd) st) = Some xd \<and>
      spans (snd (xhrCallback tx (shouldCreateSpan opts) (Some xd) st)) = spans st \<and>
      started (snd (xhrCallback tx (shouldCreateSpan opts) (Some xd) st)) = started st \<and>
      finished (snd (xhrCallback tx (shouldCreateSpan opts) (Some xd) st)) = finished st \<and>
      thrown (snd (xhrCallback tx (shouldCreateSpan opts) (Some xd) st)) = thrown st)"
  by (simp add: fetchCallback_ineligible xhrCallback_ineligible)

theorem C7_ineligible_no_effect_witness:
  "\<not> fst (shouldCreateSpan defaultRequestInstrumentionOptions ''http://example.com/api'' initial_state) \<and>
   fst (fetchCallback (Some (example_transaction ''a1''))
        (shouldCreateSpan defaultRequestInstrumentionOptions)
        (example_fetch ''http://example.com/api'' None) initial_state) = example_fetch ''http://example.com/api'' None \<and>
   spans (snd (fetchCallback (Some (example_transaction ''a1''))
        (shouldCreateSpan defaultRequestInstrumentionOptions)
        (example_fetch ''http://example.com/api'' None) initial_state)) = Map.empty \<and>
   started (snd (fetchCallback (Some (example_transaction ''a1''))
        (shouldCreateSpan defaultRequestInstrumentionOptions)
        (example_fetch ''http://example.com/api'' None) initial_state)) = [] \<and>
   fst (xhrCallback (Some (example_transaction ''a1''))
        (shouldCreateSpan defaultRequestInstrumentionOptions)
        (Some (example_xhr ''http://example.com/api'' False (Some set_header_ok))) initial_state) =
        Some (example_xhr ''http://example.com/api'' False (Some set_header_ok)) \<and>
   spans (snd (xhrCallback (Some (example_transaction ''a1''))
        (shouldCreateSpan defaultRequestInstrumentionOptions)
        (Some (example_xhr ''http://example.com/api'' False (Some set_header_ok))) initial_state)) = Map.empty \<and>
   started (snd (xhrCallback (Some (example_transaction ''a1''))
        (shouldCreateSpan defaultRequestInstrumentionOptions)
        (Some (example_xhr ''http://example.com/api'' False (Some set_header_ok))) initial_state)) = []"
  using C7_ineligible_no_effect [where h = "example_fetch ''http://example.com/api'' None"
     and fd = "example_fetch_info ''http://example.com/api''"
     and opts = defaultRequestInstrumentionOptions and st = initial_state
     and tx = "Some (example_transaction ''a1'')"
     and xd = "example_xhr ''http://example.com/api'' False (Some set_header_ok)"
     and x = "example_xhr_object ''http://example.com/api'' False (Some set_header_ok)"
     and sx = "example_sentry_xhr ''http://example.com/api''"]
  by (simp add: example_defs shouldCreateSpan_def filter_defs)

text \<open>
  C8. When \<^verbatim>\<open>setRequestHeader\<close> throws at the start of an eligible XHR request,
  the exception is caught: the callback returns (nothing is thrown), the span it started is in the registry
  under its id, and the request carries that id.
\<close>

theorem C8_header_write_throws:
  assumes "xhr xd = Some x" and "sentry_xhr x = Some sx"
    and "fst (shouldCreateSpan opts (xhr_url sx) st)"
    and "\<not> sentry_own_request x"
    and "end_key (xhr_endTimestamp xd) (sentry_xhr_span_id x) = None"
    and "setRequestHeader x = Some f"
    and "f ''sentry-trace'' (traceparent (startChild tx (xhr_context sx))) (requestHeaders x) = Inl e"
  shows
    "fst (xhrCallback (Some tx) (shouldCreateSpan opts) (Some xd) st) =
       Some (xd\<lparr>xhr := Some (x\<lparr>sentry_xhr_span_id := Some (spanId (startChild tx (xhr_context sx)))\<rparr>)\<rparr>) \<and>
     spans (snd (xhrCallback (Some tx) (shouldCreateSpan opts) (Some xd) st)) =
       (spans st)(spanId (startChild tx (xhr_context sx)) \<mapsto> startChild tx (xhr_context sx)) \<and>
     started (snd (xhrCallback (Some tx) (shouldCreateSpan opts) (Some xd) st)) =
       started st @ [startChild tx (xhr_context sx)] \<and>
     finished (snd (xhrCallback (Some tx) (shouldCreateSpan opts) (Some xd) st)) = finished st \<and>
     thrown (snd (xhrCallback (Some tx) (shouldCreateSpan opts) (Some xd) st)) = thrown st"
  using assms by (simp add: xhrCallback_start xhr_start_throws)

theorem C8_header_write_throws_witness:
  "set_header_throws ''sentry-trace'' ''trace-a1-1'' [] = Inl (Error ''InvalidStateError'') \<and>
   fst (xhrCallback (Some (example_transaction ''a1'')) (shouldCreateSpan defaultRequestInstrumentionOptions)
         (Some (example_xhr ''/users'' False (Some set_header_throws))) initial_state) =
     Some ((example_xhr ''/users'' False (Some set_header_throws))
       \<lparr>xhr := Some ((example_xhr_object ''/users'' False (Some set_header_throws))
                \<lparr>sentry_xhr_span_id := Some ''a1''\<rparr>)\<rparr>) \<and>
   spans (snd (xhrCallback (Some (example_transaction ''a1'')) (shouldCreateSpan defaultRequestInstrumentionOptions)
         (Some (example_xhr ''/users'' False (Some set_header_throws))) initial_state)) ''a1'' =
     Some (example_span ''a1'' (xhr_context (example_sentry_xhr ''/users'')))"
  using C8_header_write_throws [where xd = "example_xhr ''/users'' False (Some set_header_throws)"
     and x = "example_xhr_object ''/users'' False (Some set_header_throws)"
     and sx = "example_sentry_xhr ''/users''"
     and tx = "example_transaction ''a1''" and opts = defaultRequestInstrumentionOptions
     and st = initial_state and f = set_header_throws and e = "Error ''InvalidStateError''"]
  by (simp add: example_defs shouldCreateSpan_def filter_defs end_key_def xhr_context_def)

text \<open>
  C10. An XHR event of a request flagged \<^verbatim>\<open>__sentry_own_request__\<close> changes
  nothing: the event is returned as it came (no header is written, no span id is set),
  the span registry is unchanged, no span is started, none is finished and nothing is thrown.
\<close>

theorem C10_own_request:
  "xhr xd = Some x \<and> sentry_own_request x \<longrightarrow>
     fst (xhrCallback tx (shouldCreateSpan opts) (Some xd) st) = Some xd \<and>
     spans (snd (xhrCallback tx (shouldCreateSpan opts) (Some xd) st)) = spans st \<and>
     started (snd (xhrCallback tx (shouldCreateSpan opts) (Some xd) st)) = started st \<and>
     finished (snd (xhrCallback tx (shouldCreateSpan opts) (Some xd) st)) = finished st \<and>
     thrown (snd (xhrCallback tx (shouldCreateSpan opts) (Some xd) st)) = thrown st"
  using xhrCallback_own_any by blast

theorem C10_own_request_witness:
  "sentry_own_request (example_xhr_object ''/api/1/store/'' True (Some set_header_ok)) \<and>
   fst (shouldCreateSpan defaultRequestInstrumentionOptions ''/api/1/store/'' initial_state) \<and>
   fst (xhrCallback (Some (example_transaction ''a1'')) (shouldCreateSpan defaultRequestInstrumentionOptions)
         (Some (example_xhr ''/api/1/store/'' True (Some set_header_ok))) initial_state) =
     Some (example_xhr ''/api/1/store/'' True (Some set_header_ok)) \<and>
   spans (snd (xhrCallback (Some (example_transaction ''a1'')) (shouldCreateSpan defaultRequestInstrumentionOptions)
         (Some (example_xhr ''/api/1/store/'' True (Some set_header_ok))) initial_state)) = Map.empty \<and>
   started (snd (xhrCallback (Some (example_transaction ''a1'')) (shouldCreateSpan defaultRequestInstrumentionOptions)
         (Some (example_xhr ''/api/1/store/'' True (Some set_header_ok))) initial_state)) = []"
  using C10_own_request [where xd = "example_xhr ''/api/1/store/'' True (Some set_header_ok)"
     and x = "example_xhr_object ''/api/1/store/'' True (Some set_header_ok)"
     and tx = "Some (example_transaction ''a1'')" and opts = defaultRequestInstrumentionOptions
     and st = initial_state]
  by (simp add: example_defs shouldCreateSpan_def filter_defs)

text \<open>
  C2 (as the code has it). The claim says that registering under a key in use leaves
  the prior entry and does not track the new span. The callbacks store the new span
  under its id without looking: at an eligible start event with an active transaction,
  whether or not the key is in use, the registry afterwards maps the id of the new span
  to the new span (a prior entry under that key is replaced), every other key is as
  before, and the new span is among the spans started. The first part is the fetch
  callback, the second the XHR callback.
\<close>

theorem C2_registration_overwrites:
  "(fetchData h = Some fd \<and> fst (shouldCreateSpan opts (fetch_url fd) st) \<and>
    end_key (endTimestamp h) (fetch_span fd) = None \<longrightarrow>
      spans (snd (fetchCallback (Some tx) (shouldCreateSpan opts) h st)) =
        (spans st)(spanId (startChild tx (fetch_context fd)) \<mapsto> startChild tx (fetch_context fd)) \<and>
      started (snd (fetchCallback (Some tx) (shouldCreateSpan opts) h st)) =
        started st @ [startChild tx (fetch_context fd)]) \<and>
   (xhr xd = Some x \<and> sentry_xhr x = Some sx \<and> fst (shouldCreateSpan opts (xhr_url sx) st) \<and>
    \<not> sentry_own_request x \<and>
    end_key (xhr_endTimestamp xd) (sentry_xhr_span_id x) = None \<longrightarrow>
      spans (snd (xhrCallback (Some tx) (shouldCreateSpan opts) (Some xd) st)) =
        (spans st)(spanId (startChild tx (xhr_context sx)) \<mapsto> startChild tx (xhr_context sx)) \<and>
      started (snd (xhrCallback (Some tx) (shouldCreateSpan opts) (Some xd) st)) =
        started st @ [startChild tx (xhr_context sx)])"
  by (simp add: fetchCallback_start xhrCallback_start fetch_start_spans fetch_start_started
      xhr_start_spans xhr_start_started)

theorem C2_registration_overwrites_witness:
  "spans example_registered ''a1'' =
     Some (example_span ''a1'' (fetch_context (example_fetch_info ''/first''))) \<and>
   spans (snd (fetchCallback (Some (example_transaction ''a1''))
       (shouldCreateSpan defaultRequestInstrumentionOptions) (example_fetch ''/second'' None)
       example_registered)) ''a1'' =
     Some (example_span ''a1'' (fetch_context (example_fetch_info ''/second''))) \<and>
   spans (snd (xhrCallback (Some (example_transaction ''a1''))
       (shouldCreateSpan defaultRequestInstrumentionOptions)
       (Some (example_xhr ''/second'' False None)) example_registered)) ''a1'' =
     Some (example_span ''a1'' (xhr_context (example_sentry_xhr ''/second'')))"
  using C2_registration_overwrites [where h = "example_fetch ''/second'' None"
      and fd = "example_fetch_info ''/second''" and opts = defaultRequestInstrumentionOptions
      and st = example_registered and tx = "example_transaction ''a1''"
      and xd = "example_xhr ''/second'' False None"
      and x = "example_xhr_object ''/second'' False None"
      and sx = "example_sentry_xhr ''/second''"]
  by (simp add: example_registered_eval example_span_def example_transaction_def
      example_fetch_info_def example_fetch_def example_sentry_xhr_def example_xhr_object_def
      example_xhr_def defaultRequestInstrumentionOptions_def DEFAULT_TRACING_ORIGINS_def run_defs)

text \<open>
  C2, the claim as stated fails: with the span \<^verbatim>\<open>a1\<close> registered for the fetch of
  \<^verbatim>\<open>/first\<close>, a second start event whose new span has the same id replaces the
  entry; the first span is no longer in the registry though it was never finished.
\<close>

theorem C2_duplicate_registration_counterexample:
  "spans example_registered ''a1'' =
     Some (example_span ''a1'' (fetch_context (example_fetch_info ''/first''))) \<and>
   spans (snd (fetchCallback (Some (example_transaction ''a1''))
       (shouldCreateSpan defaultRequestInstrumentionOptions) (example_fetch ''/second'' None)
       example_registered)) ''a1'' \<noteq>
     Some (example_span ''a1'' (fetch_context (example_fetch_info ''/first''))) \<and>
   started (snd (fetchCallback (Some (example_transaction ''a1''))
       (shouldCreateSpan defaultRequestInstrumentionOptions) (example_fetch ''/second'' None)
       example_registered)) =
     [example_span ''a1'' (fetch_context (example_fetch_info ''/first'')),
      example_span ''a1'' (fetch_context (example_fetch_info ''/second''))] \<and>
   finished (snd (fetchCallback (Some (example_transaction ''a1''))
       (shouldCreateSpan defaultRequestInstrumentionOptions) (example_fetch ''/second'' None)
       example_registered)) = []"
  by (simp add: example_registered_eval example_span_def example_transaction_def
      example_fetch_info_def example_fetch_def
      defaultRequestInstrumentionOptions_def DEFAULT_TRACING_ORIGINS_def run_defs)

lemma get_property_own: "m k = Some v \<Longrightarrow> get_property m k = Own v"
  by (simp add: get_property_def)

lemma get_property_absent:
  "m k = None \<Longrightarrow> k \<notin> set Object_prototype_members \<Longrightarrow> get_property m k = Absent"
  by (simp add: get_property_def)

lemma get_property_inherited:
  "m k = None \<Longrightarrow> k \<in> set Object_prototype_members \<Longrightarrow> get_property m k = Inherited"
  by (simp add: get_property_def)

lemma fetch_end_present:
  "spans st k = Some s \<Longrightarrow>
     fetch_end k h st =
       st\<lparr>finished := finished st @
            [finish (case fetch_response h of Some r \<Rightarrow> setHttpStatus (status r) s | None \<Rightarrow> s)],
          spans := (spans st)(k := None)\<rparr>"
  by (simp add: fetch_end_def get_property_own Let_def)

lemma fetch_end_absent:
  "spans st k = None \<Longrightarrow> k \<notin> set Object_prototype_members \<Longrightarrow> fetch_end k h st = st"
  by (simp add: fetch_end_def get_property_absent)

lemma fetch_end_inherited:
  "spans st k = None \<Longrightarrow> k \<in> set Object_prototype_members \<Longrightarrow>
     thrown (fetch_end k h st) \<noteq> thrown st"
  by (simp add: fetch_end_def get_property_inherited)

lemma xhr_end_present:
  "spans st k = Some s \<Longrightarrow>
     xhr_end k sx st =
       st\<lparr>finished := finished st @
            [finish (setHttpStatus (status_code sx)
               (setData ''method'' (xhr_method sx) (setData ''url'' (xhr_url sx) s)))],
          spans := (spans st)(k := None)\<rparr>"
  by (simp add: xhr_end_def get_property_own Let_def)

lemma xhr_end_absent:
  "spans st k = None \<Longrightarrow> k \<notin> set Object_prototype_members \<Longrightarrow> xhr_end k sx st = st"
  by (simp add: xhr_end_def get_property_absent)

lemma xhr_end_inherited:
  "spans st k = None \<Longrightarrow> k \<in> set Object_prototype_members \<Longrightarrow>
     thrown (xhr_end k sx st) \<noteq> thrown st"
  by (simp add: xhr_end_def get_property_inherited)

lemma fetchCallback_end_absent:
  assumes "fetchData h = Some fd"
    and "end_key (endTimestamp h) (fetch_span fd) = Some k"
    and "spans st k = None" and "k \<notin> set Object_prototype_members"
  shows "fetchCallback tx (shouldCreateSpan opts) h st =
     (h, snd (shouldCreateSpan opts (fetch_url fd) st))"
proof (cases "fst (shouldCreateSpan opts (fetch_url fd) st)")
  case True
  with assms show ?thesis
    by (simp add: fetchCallback_end fetch_end_absent)
next
  case False
  with assms show ?thesis
    by (simp add: fetchCallback_ineligible)
qed

lemma xhrCallback_end_absent:
  assumes "xhr h = Some x" and "sentry_xhr x = Some sx"
    and "end_key (xhr_endTimestamp h) (sentry_xhr_span_id x) = Some k"
    and "spans st k = None" and "k \<notin> set Object_prototype_members"
  shows "xhrCallback tx (shouldCreateSpan opts) (Some h) st =
     (Some h, snd (shouldCreateSpan opts (xhr_url sx) st))"
proof (cases "fst (shouldCreateSpan opts (xhr_url sx) st) \<and> \<not> sentry_own_request x")
  case True
  with assms show ?thesis
    by (simp add: xhrCallback_end xhr_end_absent)
next
  case False
  with assms show ?thesis
    by (auto simp: xhrCallback_ineligible xhrCallback_own)
qed

lemma fetch_end_event:
  assumes "fetchData h = Some fd" and "fetch_span fd = Some k" and "k \<noteq> []"
    and "endTimestamp h = Some t" and "t \<noteq> 0"
    and "fst (shouldCreateSpan opts (fetch_url fd) st)" and "spans st k = Some s"
  shows "fst (fetchCallback tx (shouldCreateSpan opts) h st) = h"
    and "spans (snd (fetchCallback tx (shouldCreateSpan opts) h st)) = (spans st)(k := None)"
    and "finished (snd (fetchCallback tx (shouldCreateSpan opts) h st)) =
       finished st @
         [finish (case fetch_response h of Some r \<Rightarrow> setHttpStatus (status r) s | None \<Rightarrow> s)]"
    and "started (snd (fetchCallback tx (shouldCreateSpan opts) h st)) = started st"
    and "thrown (snd (fetchCallback tx (shouldCreateSpan opts) h st)) = thrown st"
  using assms by (simp_all add: fetchCallback_end end_key_Some fetch_end_present)

lemma fetch_end_unknown:
  assumes "fetchData h = Some fd" and "fetch_span fd = Some k" and "k \<noteq> []"
    and "endTimestamp h = Some t" and "t \<noteq> 0" and "spans st k = None"
    and "k \<notin> set Object_prototype_members"
  shows "fst (fetchCallback tx (shouldCreateSpan opts) h st) = h"
    and "spans (snd (fetchCallback tx (shouldCreateSpan opts) h st)) = spans st"
    and "finished (snd (fetchCallback tx (shouldCreateSpan opts) h st)) = finished st"
    and "started (snd (fetchCallback tx (shouldCreateSpan opts) h st)) = started st"
    and "thrown (snd (fetchCallback tx (shouldCreateSpan opts) h st)) = thrown st"
  using assms by (simp_all add: fetchCallback_end_absent end_key_Some)

lemma xhr_end_event:
  assumes "xhr xd = Some x" and "sentry_xhr x = Some sx" and "\<not> sentry_own_request x"
    and "sentry_xhr_span_id x = Some k" and "k \<noteq> []"
    and "xhr_endTimestamp xd = Some t" and "t \<noteq> 0"
    and "fst (shouldCreateSpan opts (xhr_url sx) st)" and "spans st k = Some s"
  shows "fst (xhrCallback tx (shouldCreateSpan opts) (Some xd) st) = Some xd"
    and "spans (snd (xhrCallback tx (shouldCreateSpan opts) (Some xd) st)) = (spans st)(k := None)"
    and "finished (snd (xhrCallback tx (shouldCreateSpan opts) (Some xd) st)) =
       finished st @
         [finish (setHttpStatus (status_code sx)
            (setData ''method'' (xhr_method sx) (setData ''url'' (xhr_url sx) s)))]"
    and "started (snd (xhrCallback tx (shouldCreateSpan opts) (Some xd) st)) = started st"
    and "thrown (snd (xhrCallback tx (shouldCreateSpan opts) (Some xd) st)) = thrown st"
  using assms by (simp_all add: xhrCallback_end end_key_Some xhr_end_present)

lemma xhr_end_unknown:
  assumes "xhr xd = Some x" and "sentry_xhr x = Some sx"
    and "sentry_xhr_span_id x = Some k" and "k \<noteq> []"
    and "xhr_endTimestamp xd = Some t" and "t \<noteq> 0" and "spans st k = None"
    and "k \<notin> set Object_prototype_members"
  shows "fst (xhrCallback tx (shouldCreateSpan opts) (Some xd) st) = Some xd"
    and "spans (snd (xhrCallback tx (shouldCreateSpan opts) (Some xd) st)) = spans st"
    and "finished (snd (xhrCallback tx (shouldCreateSpan opts) (Some xd) st)) = finished st"
    and "started (snd (xhrCallback tx (shouldCreateSpan opts) (Some xd) st)) = started st"
    and "thrown (snd (xhrCallback tx (shouldCreateSpan opts) (Some xd) st)) = thrown st"
  using assms by (simp_all add: xhrCallback_end_absent end_key_Some)

text \<open>
  C3 (as the code has it). An end event is, as the callbacks test it, an event with a
  truthy \<^verbatim>\<open>endTimestamp\<close> (a number other than zero) and a truthy key (a string that
  is not empty). With a span \<open>s\<close> registered under \<open>k\<close>, an end event for \<open>k\<close> whose URL
  is eligible (and, for XHR, whose request is not the engine's own) removes the entry
  and finishes exactly \<open>s\<close>, with the status of the response, and throws nothing. If
  \<open>k\<close> is not the name of a member of \<^verbatim>\<open>Object.prototype\<close>, a second end event for
  \<open>k\<close> finishes nothing, throws nothing and leaves the registry and the event as they
  are; and so does every end event for a key that is not in the registry and is not
  such a name. What an end event does for a key that is such a name and not in the
  registry is not part of the statement. The first two parts are the fetch callback,
  the last two the XHR callback.
\<close>

theorem C3_end_events:
  "(fetchData h = Some fd \<and> fetch_span fd = Some k \<and> k \<noteq> [] \<and>
    endTimestamp h = Some t \<and> t \<noteq> 0 \<and>
    fst (shouldCreateSpan opts (fetch_url fd) st) \<and> spans st k = Some s \<longrightarrow>
      (let r1 = fetchCallback tx (shouldCreateSpan opts) h st
       in fst r1 = h \<and> spans (snd r1) = (spans st)(k := None) \<and>
          finished (snd r1) = finished st @
            [finish (case fetch_response h of Some r \<Rightarrow> setHttpStatus (status r) s | None \<Rightarrow> s)] \<and>
          started (snd r1) = started st \<and> thrown (snd r1) = thrown st \<and>
          (k \<notin> set Object_prototype_members \<longrightarrow>
             (let r2 = fetchCallback tx (shouldCreateSpan opts) (fst r1) (snd r1)
              in fst r2 = h \<and> spans (snd r2) = spans (snd r1) \<and>
                 finished (snd r2) = finished (snd r1) \<and> started (snd r2) = started (snd r1) \<and>
                 thrown (snd r2) = thrown (snd r1))))) \<and>
   (fetchData h = Some fd \<and> fetch_span fd = Some k \<and> k \<noteq> [] \<and>
    endTimestamp h = Some t \<and> t \<noteq> 0 \<and> spans st k = None \<and>
    k \<notin> set Object_prototype_members \<longrightarrow>
      (let r = fetchCallback tx (shouldCreateSpan opts) h st
       in fst r = h \<and> spans (snd r) = spans st \<and> finished (snd r) = finished st \<and>
          started (snd r) = started st \<and> thrown (snd r) = thrown st)) \<and>
   (xhr xd = Some x \<and> sentry_xhr x = Some sx \<and> \<not> sentry_own_request x \<and>
    sentry_xhr_span_id x = Some k \<and> k \<noteq> [] \<and>
    xhr_endTimestamp xd = Some t \<and> t \<noteq> 0 \<and>
    fst (shouldCreateSpan opts (xhr_url sx) st) \<and> spans st k = Some s \<longrightarrow>
      (let r1 = xhrCallback tx (shouldCreateSpan opts) (Some xd) st
       in fst r1 = Some xd \<and> spans (snd r1) = (spans st)(k := None) \<and>
          finished (snd r1) = finished st @
            [finish (setHttpStatus (status_code sx)
               (setData ''method'' (xhr_method sx) (setData ''url'' (xhr_url sx) s)))] \<and>
          started (snd r1) = started st \<and> thrown (snd r1) = thrown st \<and>
          (k \<notin> set Object_prototype_members \<longrightarrow>
             (let r2 = xhrCallback tx (shouldCreateSpan opts) (fst r1) (snd r1)
              in fst r2 = Some xd \<and> spans (snd r2) = spans (snd r1) \<and>
                 finished (snd r2) = finished (snd r1) \<and> started (snd r2) = started (snd r1) \<and>
                 thrown (snd r2) = thrown (snd r1))))) \<and>
   (xhr xd = Some x \<and> sentry_xhr x = Some sx \<and>
    sentry_xhr_span_id x = Some k \<and> k \<noteq> [] \<and>
    xhr_endTimestamp xd = Some t \<and> t \<noteq> 0 \<and> spans st k = None \<and>
    k \<notin> set Object_prototype_members \<longrightarrow>
      (let r = xhrCallback tx (shouldCreateSpan opts) (Some xd) st
       in fst r = Some xd \<and> spans (snd r) = spans st \<and> finished (snd r) = finished st \<and>
          started (snd r) = started st \<and> thrown (snd r) = thrown st))"
proof (intro conjI impI)
  assume a: "fetchData h = Some fd \<and> fetch_span fd = Some k \<and> k \<noteq> [] \<and>
    endTimestamp h = Some t \<and> t \<noteq> 0 \<and>
    fst (shouldCreateSpan opts (fetch_url fd) st) \<and> spans st k = Some s"
  define r1 where "r1 = fetchCallback tx (shouldCreateSpan opts) h st"
  from a have first: "fst r1 = h" "spans (snd r1) = (spans st)(k := None)"
    "finished (snd r1) = finished st @
       [finish (case fetch_response h of Some r \<Rightarrow> setHttpStatus (status r) s | None \<Rightarrow> s)]"
    "started (snd r1) = started st" "thrown (snd r1) = thrown st"
    unfolding r1_def by (simp_all add: fetch_end_event)
  from first have gone: "spans (snd r1) k = None"
    by simp
  have second: "fst (fetchCallback tx (shouldCreateSpan opts) h (snd r1)) = h \<and>
    spans (snd (fetchCallback tx (shouldCreateSpan opts) h (snd r1))) = spans (snd r1) \<and>
    finished (snd (fetchCallback tx (shouldCreateSpan opts) h (snd r1))) = finished (snd r1) \<and>
    started (snd (fetchCallback tx (shouldCreateSpan opts) h (snd r1))) = started (snd r1) \<and>
    thrown (snd (fetchCallback tx (shouldCreateSpan opts) h (snd r1))) = thrown (snd r1)"
    if "k \<notin> set Object_prototype_members"
    using a gone that by (simp add: fetch_end_unknown)
  from first second show "let r1 = fetchCallback tx (shouldCreateSpan opts) h st
       in fst r1 = h \<and> spans (snd r1) = (spans st)(k := None) \<and>
          finished (snd r1) = finished st @
            [finish (case fetch_response h of Some r \<Rightarrow> setHttpStatus (status r) s | None \<Rightarrow> s)] \<and>
          started (snd r1) = started st \<and> thrown (snd r1) = thrown st \<and>
          (k \<notin> set Object_prototype_members \<longrightarrow>
             (let r2 = fetchCallback tx (shouldCreateSpan opts) (fst r1) (snd r1)
              in fst r2 = h \<and> spans (snd r2) = spans (snd r1) \<and>
                 finished (snd r2) = finished (snd r1) \<and> started (snd r2) = started (snd r1) \<and>
                 thrown (snd r2) = thrown (snd r1)))"
    unfolding r1_def Let_def by simp
next
  assume "fetchData h = Some fd \<and> fetch_span fd = Some k \<and> k \<noteq> [] \<and>
    endTimestamp h = Some t \<and> t \<noteq> 0 \<and> spans st k = None \<and>
    k \<notin> set Object_prototype_members"
  then show "let r = fetchCallback tx (shouldCreateSpan opts) h st
       in fst r = h \<and> spans (snd r) = spans st \<and> finished (snd r) = finished st \<and>
          started (snd r) = started st \<and> thrown (snd r) = thrown st"
    unfolding Let_def by (simp add: fetch_end_unknown)
next
  assume a: "xhr xd = Some x \<and> sentry_xhr x = Some sx \<and> \<not> sentry_own_request x \<and>
    sentry_xhr_span_id x = Some k \<and> k \<noteq> [] \<and>
    xhr_endTimestamp xd = Some t \<and> t \<noteq> 0 \<and>
    fst (shouldCreateSpan opts (xhr_url sx) st) \<and> spans st k = Some s"
  define r1 where "r1 = xhrCallback tx (shouldCreateSpan opts) (Some xd) st"
  from a have first: "fst r1 = Some xd" "spans (snd r1) = (spans st)(k := None)"
    "finished (snd r1) = finished st @
       [finish (setHttpStatus (status_code sx)
          (setData ''method'' (xhr_method sx) (setData ''url'' (xhr_url sx) s)))]"
    "started (snd r1) = started st" "thrown (snd r1) = thrown st"
    unfolding r1_def by (simp_all add: xhr_end_event)
  from first have gone: "spans (snd r1) k = None"
    by simp
  have second: "fst (xhrCallback tx (shouldCreateSpan opts) (Some xd) (snd r1)) = Some xd \<and>
    spans (snd (xhrCallback tx (shouldCreateSpan opts) (Some xd) (snd r1))) = spans (snd r1) \<and>
    finished (snd (xhrCallback tx (shouldCreateSpan opts) (Some xd) (snd r1))) = finished (snd r1) \<and>
    started (snd (xhrCallback tx (shouldCreateSpan opts) (Some xd) (snd r1))) = started (snd r1) \<and>
    thrown (snd (xhrCallback tx (shouldCreateSpan opts) (Some xd) (snd r1))) = thrown (snd r1)"
    if "k \<notin> set Object_prototype_members"
    using a gone that by (simp add: xhr_end_unknown)
  from first second show "let r1 = xhrCallback tx (shouldCreateSpan opts) (Some xd) st
       in fst r1 = Some xd \<and> spans (snd r1) = (spans st)(k := None) \<and>
          finished (snd r1) = finished st @
            [finish (setHttpStatus (status_code sx)
               (setData ''method'' (xhr_method sx) (setData ''url'' (xhr_url sx) s)))] \<and>
          started (snd r1) = started st \<and> thrown (snd r1) = thrown st \<and>
          (k \<notin> set Object_prototype_members \<longrightarrow>
             (let r2 = xhrCallback tx (shouldCreateSpan opts) (fst r1) (snd r1)
              in fst r2 = Some xd \<and> spans (snd r2) = spans (snd r1) \<and>
                 finished (snd r2) = finished (snd r1) \<and> started (snd r2) = started (snd r1) \<and>
                 thrown (snd r2) = thrown (snd r1)))"
    unfolding r1_def Let_def by simp
next
  assume "xhr xd = Some x \<and> sentry_xhr x = Some sx \<and>
    sentry_xhr_span_id x = Some k \<and> k \<noteq> [] \<and>
    xhr_endTimestamp xd = Some t \<and> t \<noteq> 0 \<and> spans st k = None \<and>
    k \<notin> set Object_prototype_members"
  then show "let r = xhrCallback tx (shouldCreateSpan opts) (Some xd) st
       in fst r = Some xd \<and> spans (snd r) = spans st \<and> finished (snd r) = finished st \<and>
          started (snd r) = started st \<and> thrown (snd r) = thrown st"
    unfolding Let_def by (simp add: xhr_end_unknown)
qed

theorem C3_end_events_witness:
  "spans example_registered ''a1'' =
     Some (example_span ''a1'' (fetch_context (example_fetch_info ''/first''))) \<and>
   fst (fetchCallback None (shouldCreateSpan defaultRequestInstrumentionOptions)
          example_fetch_ended example_registered) = example_fetch_ended \<and>
   spans (snd (fetchCallback None (shouldCreateSpan defaultRequestInstrumentionOptions)
          example_fetch_ended example_registered)) ''a1'' = None \<and>
   finished (snd (fetchCallback None (shouldCreateSpan defaultRequestInstrumentionOptions)
          example_fetch_ended example_registered)) =
     [finish (setHttpStatus 200 (example_span ''a1'' (fetch_context (example_fetch_info ''/first''))))] \<and>
   finished (snd (fetchCallback None (shouldCreateSpan defaultRequestInstrumentionOptions)
          example_fetch_ended
          (snd (fetchCallback None (shouldCreateSpan defaultRequestInstrumentionOptions)
             example_fetch_ended example_registered)))) =
     [finish (setHttpStatus 200 (example_span ''a1'' (fetch_context (example_fetch_info ''/first''))))] \<and>
   finished (snd (fetchCallback None (shouldCreateSpan defaultRequestInstrumentionOptions)
          example_fetch_ended initial_state)) = [] \<and>
   spans example_xhr_registered ''a1'' =
     Some (example_span ''a1'' (xhr_context (example_sentry_xhr ''/first''))) \<and>
   spans (snd (xhrCallback None (shouldCreateSpan defaultRequestInstrumentionOptions)
          (Some example_xhr_ended) example_xhr_registered)) ''a1'' = None \<and>
   finished (snd (xhrCallback None (shouldCreateSpan defaultRequestInstrumentionOptions)
          (Some example_xhr_ended) example_xhr_registered)) =
     [finish (setHttpStatus 200 (setData ''method'' ''GET'' (setData ''url'' ''/first''
        (example_span ''a1'' (xhr_context (example_sentry_xhr ''/first''))))))] \<and>
   finished (snd (xhrCallback None (shouldCreateSpan defaultRequestInstrumentionOptions)
          (Some example_xhr_ended) initial_state)) = []"
proof -
  let ?opts = defaultRequestInstrumentionOptions
  let ?fd = "(example_fetch_info ''/first'')\<lparr>fetch_span := Some ''a1''\<rparr>"
  let ?s = "example_span ''a1'' (fetch_context (example_fetch_info ''/first''))"
  let ?x = "(example_xhr_object ''/first'' False (Some set_header_ok))
                   \<lparr>sentry_xhr := Some ((example_sentry_xhr ''/first'')\<lparr>status_code := 200\<rparr>),
                    sentry_xhr_span_id := Some ''a1'',
                    requestHeaders := [(''sentry-trace'', ''trace-a1-1'')]\<rparr>"
  let ?sx = "(example_sentry_xhr ''/first'')\<lparr>status_code := 200\<rparr>"
  let ?xs = "example_span ''a1'' (xhr_context (example_sentry_xhr ''/first''))"
  have opts: "shouldCreateSpanForRequest ?opts = None"
    by (simp add: defaultRequestInstrumentionOptions_def)
  have fev: "fetchData example_fetch_ended = Some ?fd" "fetch_span ?fd = Some ''a1''"
    "endTimestamp example_fetch_ended = Some 2000" "fetch_url ?fd = ''/first''"
    "fetch_response example_fetch_ended = Some \<lparr>status = 200\<rparr>"
    by (simp_all add: example_fetch_ended_eval example_fetch_info_def)
  have xev: "xhr example_xhr_ended = Some ?x" "sentry_xhr ?x = Some ?sx"
    "\<not> sentry_own_request ?x" "sentry_xhr_span_id ?x = Some ''a1''"
    "xhr_endTimestamp example_xhr_ended = Some 2000" "xhr_url ?sx = ''/first''"
    "xhr_method ?sx = ''GET''" "status_code ?sx = 200"
    by (simp_all add: example_xhr_ended_def example_xhr_object_def example_sentry_xhr_def)
  have reg: "spans example_registered ''a1'' = Some ?s" "finished example_registered = []"
    "fst (shouldCreateSpan ?opts ''/first'' example_registered)"
    by (simp_all add: example_registered_eval cached_eligible opts)
  have xreg: "spans example_xhr_registered ''a1'' = Some ?xs" "finished example_xhr_registered = []"
    "fst (shouldCreateSpan ?opts ''/first'' example_xhr_registered)"
    by (simp_all add: example_xhr_registered_eval cached_eligible opts)
  have init: "spans initial_state ''a1'' = None" "finished initial_state = []"
    by (simp_all add: initial_state_def)
  have own: "''a1'' \<notin> set Object_prototype_members"
    by (simp add: Object_prototype_members_def)
  note known =
    C3_end_events [where h = example_fetch_ended and fd = ?fd and k = "''a1''" and t = 2000
      and opts = ?opts and st = example_registered and s = ?s and tx = None, THEN conjunct1]
  note unknown =
    C3_end_events [where h = example_fetch_ended and fd = ?fd and k = "''a1''" and t = 2000
      and opts = ?opts and st = initial_state and tx = None
      and xd = example_xhr_ended and x = ?x and sx = ?sx, THEN conjunct2]
  note xknown =
    C3_end_events [where k = "''a1''" and t = 2000 and opts = ?opts
      and st = example_xhr_registered and tx = None
      and xd = example_xhr_ended and x = ?x and sx = ?sx and s = ?xs,
      THEN conjunct2, THEN conjunct2, THEN conjunct1]
  from known fev reg
  have f1: "fst (fetchCallback None (shouldCreateSpan ?opts) example_fetch_ended example_registered) =
        example_fetch_ended"
    by (simp add: Let_def)
  from f1 known fev reg own
  have f2: "spans (snd (fetchCallback None (shouldCreateSpan ?opts) example_fetch_ended
        example_registered)) ''a1'' = None"
    and f3: "finished (snd (fetchCallback None (shouldCreateSpan ?opts) example_fetch_ended
        example_registered)) = [finish (setHttpStatus 200 ?s)]"
    and f4: "finished (snd (fetchCallback None (shouldCreateSpan ?opts) example_fetch_ended
        (snd (fetchCallback None (shouldCreateSpan ?opts) example_fetch_ended example_registered)))) =
        [finish (setHttpStatus 200 ?s)]"
    by (simp_all add: Let_def)
  from unknown fev xev init own
  have u1: "finished (snd (fetchCallback None (shouldCreateSpan ?opts) example_fetch_ended
        initial_state)) = []"
    and u2: "finished (snd (xhrCallback None (shouldCreateSpan ?opts) (Some example_xhr_ended)
        initial_state)) = []"
    by (simp_all add: Let_def)
  from xknown xev xreg own
  have x1: "spans (snd (xhrCallback None (shouldCreateSpan ?opts) (Some example_xhr_ended)
        example_xhr_registered)) ''a1'' = None"
    and x2: "finished (snd (xhrCallback None (shouldCreateSpan ?opts) (Some example_xhr_ended)
        example_xhr_registered)) =
        [finish (setHttpStatus 200 (setData ''method'' ''GET'' (setData ''url'' ''/first'' ?xs)))]"
    by (simp_all add: Let_def)
  from reg(1) xreg(1) f1 f2 f3 f4 u1 u2 x1 x2 show ?thesis
    by blast
qed

text \<open>
  C3, the claim as stated fails at each of these inputs. A span registered under the
  empty key is not removed by an event with that key and an \<^verbatim>\<open>endTimestamp\<close>. The span
  \<^verbatim>\<open>a1\<close> is not removed by an event for \<^verbatim>\<open>a1\<close> whose \<^verbatim>\<open>endTimestamp\<close> is 0, by one
  whose URL is not eligible, or by an XHR event of a request flagged as the engine's
  own. And with an empty registry, an end event for the key \<^verbatim>\<open>constructor\<close> throws a
  \<^verbatim>\<open>TypeError\<close> out of either callback.
\<close>

theorem C3_end_event_counterexample:
  "spans example_registered_empty_key '''' =
     Some (example_span '''' (fetch_context (example_fetch_info ''/first''))) \<and>
   spans (snd (fetchCallback None (shouldCreateSpan defaultRequestInstrumentionOptions)
      (example_fetch_end ''/first'' '''' 2000) example_registered_empty_key)) '''' =
     Some (example_span '''' (fetch_context (example_fetch_info ''/first''))) \<and>
   finished (snd (fetchCallback None (shouldCreateSpan defaultRequestInstrumentionOptions)
      (example_fetch_end ''/first'' '''' 2000) example_registered_empty_key)) = [] \<and>
   spans example_registered ''a1'' =
     Some (example_span ''a1'' (fetch_context (example_fetch_info ''/first''))) \<and>
   spans (snd (fetchCallback None (shouldCreateSpan defaultRequestInstrumentionOptions)
      (example_fetch_end ''/first'' ''a1'' 0) example_registered)) ''a1'' =
     Some (example_span ''a1'' (fetch_context (example_fetch_info ''/first''))) \<and>
   finished (snd (fetchCallback None (shouldCreateSpan defaultRequestInstrumentionOptions)
      (example_fetch_end ''/first'' ''a1'' 0) example_registered)) = [] \<and>
   spans (snd (fetchCallback None (shouldCreateSpan defaultRequestInstrumentionOptions)
      (example_fetch_end ''http://example.com/api'' ''a1'' 2000) example_registered)) ''a1'' =
     Some (example_span ''a1'' (fetch_context (example_fetch_info ''/first''))) \<and>
   spans example_xhr_registered ''a1'' =
     Some (example_span ''a1'' (xhr_context (example_sentry_xhr ''/first''))) \<and>
   spans (snd (xhrCallback None (shouldCreateSpan defaultRequestInstrumentionOptions)
      (Some (example_xhr_end ''/first'' ''a1'' True 2000)) example_xhr_registered)) ''a1'' =
     Some (example_span ''a1'' (xhr_context (example_sentry_xhr ''/first''))) \<and>
   spans initial_state ''constructor'' = None \<and>
   thrown (snd (fetchCallback None (shouldCreateSpan defaultRequestInstrumentionOptions)
      (example_fetch_end ''/first'' ''constructor'' 2000) initial_state)) =
     [TypeError ''span.setHttpStatus is not a function''] \<and>
   thrown (snd (xhrCallback None (shouldCreateSpan defaultRequestInstrumentionOptions)
      (Some (example_xhr_end ''/first'' ''constructor'' False 2000)) initial_state)) =
     [TypeError ''span.setData is not a function'']"
  by (simp add: example_registered_eval example_xhr_registered_eval example_registered_empty_key_def
      example_span_def example_transaction_def example_fetch_info_def example_fetch_def
      example_sentry_xhr_def example_xhr_object_def example_xhr_def example_fetch_end_def
      example_xhr_end_def set_header_ok_def defaultRequestInstrumentionOptions_def
      DEFAULT_TRACING_ORIGINS_def initial_state_def run_defs)

lemma update_keeps_others:
  "e \<in> set al \<Longrightarrow> fst e \<noteq> k \<Longrightarrow> e \<in> set (AList.update k v al)"
  by (induction al) auto

lemma fetch_start_append:
  "header_sink h = Some (Headers hs ap) \<Longrightarrow>
   ap ''sentry-trace'' (traceparent (startChild tx (fetch_context fd))) hs = Inr hs1 \<Longrightarrow>
     options_headers (fst (fetch_start tx fd h st)) = Some (Headers hs1 ap)"
  by (auto simp: fetch_start_def fetch_headers_def options_headers_def header_sink_def Let_def
      split: option.splits request_info.splits headers.splits)

lemma fetch_start_pairs:
  "header_sink h = Some (HeaderPairs hs) \<Longrightarrow>
     options_headers (fst (fetch_start tx fd h st)) =
       Some (HeaderPairs (hs @ [(''sentry-trace'', traceparent (startChild tx (fetch_context fd)))]))"
  by (auto simp: fetch_start_def fetch_headers_def options_headers_def header_sink_def Let_def
      split: option.splits request_info.splits headers.splits)

lemma fetch_start_record:
  "header_sink h = Some (HeaderRecord hs) \<Longrightarrow>
     options_headers (fst (fetch_start tx fd h st)) =
       Some (HeaderRecord
         (AList.update ''sentry-trace'' (traceparent (startChild tx (fetch_context fd))) hs))"
  by (auto simp: fetch_start_def fetch_headers_def options_headers_def header_sink_def Let_def
      split: option.splits request_info.splits headers.splits)

lemma fetch_start_no_sink:
  "header_sink h = None \<Longrightarrow>
     options_headers (fst (fetch_start tx fd h st)) =
       Some (HeaderRecord [(''sentry-trace'', traceparent (startChild tx (fetch_context fd)))])"
  by (auto simp: fetch_start_def fetch_headers_def options_headers_def header_sink_def Let_def
      split: option.splits request_info.splits headers.splits)

lemma fetch_start_request:
  "arg0 h = Some (Request rh ap) \<Longrightarrow>
   ap ''sentry-trace'' (traceparent (startChild tx (fetch_context fd))) rh = Inr hs1 \<Longrightarrow>
     arg0 (fst (fetch_start tx fd h st)) = Some (Request hs1 ap)"
  by (simp add: fetch_start_def fetch_headers_def Let_def)

lemma fetch_start_no_request:
  "\<forall>rh ap. arg0 h \<noteq> Some (Request rh ap) \<Longrightarrow> arg0 (fst (fetch_start tx fd h st)) = arg0 h"
  by (auto simp: fetch_start_def fetch_headers_def Let_def
      split: option.splits request_info.splits headers.splits sum.splits)

lemma xhr_start_written:
  "setRequestHeader x = Some f \<Longrightarrow>
   f ''sentry-trace'' (traceparent (startChild tx (xhr_context sx))) (requestHeaders x) = Inr hs1 \<Longrightarrow>
     fst (xhr_start tx sx x st) =
       x\<lparr>sentry_xhr_span_id := Some (spanId (startChild tx (xhr_context sx))),
         requestHeaders := hs1\<rparr>"
  by (simp add: xhr_start_def Let_def)

lemma xhr_start_not_written:
  "setRequestHeader x = None \<or>
   (\<exists>f e. setRequestHeader x = Some f \<and>
      f ''sentry-trace'' (traceparent (startChild tx (xhr_context sx))) (requestHeaders x) = Inl e) \<Longrightarrow>
     fst (xhr_start tx sx x st) =
       x\<lparr>sentry_xhr_span_id := Some (spanId (startChild tx (xhr_context sx)))\<rparr>"
  by (auto simp: xhr_start_def Let_def)

text \<open>
  C6 (as the code has it). At an eligible start event with an active transaction the
  header value is written at most once, by the one strategy of the sink. Fetch: the sink
  is the \<^verbatim>\<open>Headers\<close> object of a \<^verbatim>\<open>Request\<close>, else \<^verbatim>\<open>options.headers\<close>. On an
  object with \<^verbatim>\<open>append\<close> that method is called once with the name and the value,
  and when it returns, the object as the call left it is \<^verbatim>\<open>options.headers\<close>. To a
  list of pairs the pair is added at the end, after all the entries already there. For
  a plain object the property \<^verbatim>\<open>'sentry-trace'\<close> is set on a copy: every entry under
  another name is kept, an entry already there under \<^verbatim>\<open>'sentry-trace'\<close> is replaced.
  Without a sink the result is a plain object with the one entry. XHR: when the request
  has a \<^verbatim>\<open>setRequestHeader\<close>, it is called once with the name and the value, and
  when it returns the request holds the headers the call left; when the request has no
  such method, or the call throws, the headers of the request are as before.
\<close>

theorem C6_header_written:
  "(fetchData h = Some fd \<and> fst (shouldCreateSpan opts (fetch_url fd) st) \<and>
    end_key (endTimestamp h) (fetch_span fd) = None \<longrightarrow>
      (\<forall>hs ap hs1. header_sink h = Some (Headers hs ap) \<and>
         ap ''sentry-trace'' (traceparent (startChild tx (fetch_context fd))) hs = Inr hs1 \<longrightarrow>
           options_headers (fst (fetchCallback (Some tx) (shouldCreateSpan opts) h st)) =
             Some (Headers hs1 ap)) \<and>
      (\<forall>hs. header_sink h = Some (HeaderPairs hs) \<longrightarrow>
         options_headers (fst (fetchCallback (Some tx) (shouldCreateSpan opts) h st)) =
           Some (HeaderPairs (hs @ [(''sentry-trace'', traceparent (startChild tx (fetch_context fd)))]))) \<and>
      (\<forall>hs. header_sink h = Some (HeaderRecord hs) \<longrightarrow>
         options_headers (fst (fetchCallback (Some tx) (shouldCreateSpan opts) h st)) =
           Some (HeaderRecord
             (AList.update ''sentry-trace'' (traceparent (startChild tx (fetch_context fd))) hs)) \<and>
         map_of (AList.update ''sentry-trace'' (traceparent (startChild tx (fetch_context fd))) hs) =
           (map_of hs)(''sentry-trace'' \<mapsto> traceparent (startChild tx (fetch_context fd))) \<and>
         (\<forall>e \<in> set hs. fst e \<noteq> ''sentry-trace'' \<longrightarrow>
            e \<in> set (AList.update ''sentry-trace''
              (traceparent (startChild tx (fetch_context fd))) hs))) \<and>
      (header_sink h = None \<longrightarrow>
         options_headers (fst (fetchCallback (Some tx) (shouldCreateSpan opts) h st)) =
           Some (HeaderRecord [(''sentry-trace'', traceparent (startChild tx (fetch_context fd)))])) \<and>
      (\<forall>rh ap hs1. arg0 h = Some (Request rh ap) \<and>
         ap ''sentry-trace'' (traceparent (startChild tx (fetch_context fd))) rh = Inr hs1 \<longrightarrow>
           arg0 (fst (fetchCallback (Some tx) (shouldCreateSpan opts) h st)) =
             Some (Request hs1 ap)) \<and>
      ((\<forall>rh ap. arg0 h \<noteq> Some (Request rh ap)) \<longrightarrow>
         arg0 (fst (fetchCallback (Some tx) (shouldCreateSpan opts) h st)) = arg0 h)) \<and>
   (xhr xd = Some x \<and> sentry_xhr x = Some sx \<and> fst (shouldCreateSpan opts (xhr_url sx) st) \<and>
    \<not> sentry_own_request x \<and>
    end_key (xhr_endTimestamp xd) (sentry_xhr_span_id x) = None \<longrightarrow>
      (\<forall>f hs1. setRequestHeader x = Some f \<and>
         f ''sentry-trace'' (traceparent (startChild tx (xhr_context sx))) (requestHeaders x) =
           Inr hs1 \<longrightarrow>
           fst (xhrCallback (Some tx) (shouldCreateSpan opts) (Some xd) st) =
             Some (xd\<lparr>xhr := Some (x\<lparr>sentry_xhr_span_id :=
                                        Some (spanId (startChild tx (xhr_context sx))),
                                      requestHeaders := hs1\<rparr>)\<rparr>)) \<and>
      (setRequestHeader x = None \<or>
       (\<exists>f e. setRequestHeader x = Some f \<and>
          f ''sentry-trace'' (traceparent (startChild tx (xhr_context sx))) (requestHeaders x) =
            Inl e) \<longrightarrow>
           fst (xhrCallback (Some tx) (shouldCreateSpan opts) (Some xd) st) =
             Some (xd\<lparr>xhr := Some (x\<lparr>sentry_xhr_span_id :=
                                        Some (spanId (startChild tx (xhr_context sx)))\<rparr>)\<rparr>)))"
proof (intro conjI impI)
  assume "fetchData h = Some fd \<and> fst (shouldCreateSpan opts (fetch_url fd) st) \<and>
    end_key (endTimestamp h) (fetch_span fd) = None"
  then have start: "fetchCallback (Some tx) (shouldCreateSpan opts) h st =
      fetch_start tx fd h (snd (shouldCreateSpan opts (fetch_url fd) st))"
    by (simp add: fetchCallback_start)
  show "\<forall>hs ap hs1. header_sink h = Some (Headers hs ap) \<and>
         ap ''sentry-trace'' (traceparent (startChild tx (fetch_context fd))) hs = Inr hs1 \<longrightarrow>
           options_headers (fst (fetchCallback (Some tx) (shouldCreateSpan opts) h st)) =
             Some (Headers hs1 ap)"
    by (simp add: start fetch_start_append)
  show "\<forall>hs. header_sink h = Some (HeaderPairs hs) \<longrightarrow>
         options_headers (fst (fetchCallback (Some tx) (shouldCreateSpan opts) h st)) =
           Some (HeaderPairs (hs @ [(''sentry-trace'', traceparent (startChild tx (fetch_context fd)))]))"
    by (simp add: start fetch_start_pairs)
  show "\<forall>hs. header_sink h = Some (HeaderRecord hs) \<longrightarrow>
         options_headers (fst (fetchCallback (Some tx) (shouldCreateSpan opts) h st)) =
           Some (HeaderRecord
             (AList.update ''sentry-trace'' (traceparent (startChild tx (fetch_context fd))) hs)) \<and>
         map_of (AList.update ''sentry-trace'' (traceparent (startChild tx (fetch_context fd))) hs) =
           (map_of hs)(''sentry-trace'' \<mapsto> traceparent (startChild tx (fetch_context fd))) \<and>
         (\<forall>e \<in> set hs. fst e \<noteq> ''sentry-trace'' \<longrightarrow>
            e \<in> set (AList.update ''sentry-trace''
              (traceparent (startChild tx (fetch_context fd))) hs))"
    by (simp add: start fetch_start_record update_keeps_others AList.update_conv')
  show "options_headers (fst (fetchCallback (Some tx) (shouldCreateSpan opts) h st)) =
      Some (HeaderRecord [(''sentry-trace'', traceparent (startChild tx (fetch_context fd)))])"
    if "header_sink h = None"
    using that by (simp add: start fetch_start_no_sink)
  show "\<forall>rh ap hs1. arg0 h = Some (Request rh ap) \<and>
         ap ''sentry-trace'' (traceparent (startChild tx (fetch_context fd))) rh = Inr hs1 \<longrightarrow>
           arg0 (fst (fetchCallback (Some tx) (shouldCreateSpan opts) h st)) =
             Some (Request hs1 ap)"
    by (simp add: start fetch_start_request)
  show "arg0 (fst (fetchCallback (Some tx) (shouldCreateSpan opts) h st)) = arg0 h"
    if "\<forall>rh ap. arg0 h \<noteq> Some (Request rh ap)"
    using that by (simp add: start fetch_start_no_request)
next
  assume a: "xhr xd = Some x \<and> sentry_xhr x = Some sx \<and>
    fst (shouldCreateSpan opts (xhr_url sx) st) \<and> \<not> sentry_own_request x \<and>
    end_key (xhr_endTimestamp xd) (sentry_xhr_span_id x) = None"
  then have start: "fst (xhrCallback (Some tx) (shouldCreateSpan opts) (Some xd) st) =
      Some (xd\<lparr>xhr := Some (fst (xhr_start tx sx x (snd (shouldCreateSpan opts (xhr_url sx) st))))\<rparr>)"
    by (simp add: xhrCallback_start)
  show "\<forall>f hs1. setRequestHeader x = Some f \<and>
         f ''sentry-trace'' (traceparent (startChild tx (xhr_context sx))) (requestHeaders x) =
           Inr hs1 \<longrightarrow>
           fst (xhrCallback (Some tx) (shouldCreateSpan opts) (Some xd) st) =
             Some (xd\<lparr>xhr := Some (x\<lparr>sentry_xhr_span_id :=
                                        Some (spanId (startChild tx (xhr_context sx))),
                                      requestHeaders := hs1\<rparr>)\<rparr>)"
    by (simp add: start xhr_start_written)
  show "fst (xhrCallback (Some tx) (shouldCreateSpan opts) (Some xd) st) =
      Some (xd\<lparr>xhr := Some (x\<lparr>sentry_xhr_span_id :=
                                 Some (spanId (startChild tx (xhr_context sx)))\<rparr>)\<rparr>)"
    if "setRequestHeader x = None \<or>
       (\<exists>f e. setRequestHeader x = Some f \<and>
          f ''sentry-trace'' (traceparent (startChild tx (xhr_context sx))) (requestHeaders x) =
            Inl e)"
    using that by (simp add: start xhr_start_not_written)
qed

theorem C6_header_written_witness:
  "options_headers (fst (fetchCallback (Some (example_transaction ''a1''))
      (shouldCreateSpan defaultRequestInstrumentionOptions)
      (example_fetch ''/users'' (Some (example_init_headers set_header_combines))) initial_state)) =
     Some (Headers [(''accept'', ''text/html''), (''sentry-trace'', ''old, trace-a1-1'')]
        set_header_combines) \<and>
   options_headers (fst (fetchCallback (Some (example_transaction ''a1''))
      (shouldCreateSpan defaultRequestInstrumentionOptions)
      (example_fetch ''/users'' (Some example_init_pairs)) initial_state)) =
     Some (HeaderPairs [(''accept'', ''text/html''), (''sentry-trace'', ''old''),
        (''sentry-trace'', ''trace-a1-1'')]) \<and>
   options_headers (fst (fetchCallback (Some (example_transaction ''a1''))
      (shouldCreateSpan defaultRequestInstrumentionOptions)
      (example_fetch ''/users'' (Some example_init_record)) initial_state)) =
     Some (HeaderRecord [(''sentry-trace'', ''trace-a1-1''), (''accept'', ''text/html'')]) \<and>
   arg0 (fst (fetchCallback (Some (example_transaction ''a1''))
      (shouldCreateSpan defaultRequestInstrumentionOptions)
      ((example_fetch ''/users'' (Some example_init_pairs))
         \<lparr>arg0 := Some (Request [(''accept'', ''*/*'')] set_header_ok)\<rparr>)
      initial_state)) =
     Some (Request [(''accept'', ''*/*''), (''sentry-trace'', ''trace-a1-1'')] set_header_ok) \<and>
   options_headers (fst (fetchCallback (Some (example_transaction ''a1''))
      (shouldCreateSpan defaultRequestInstrumentionOptions)
      ((example_fetch ''/users'' (Some example_init_pairs))
         \<lparr>arg0 := Some (Request [(''accept'', ''*/*'')] set_header_ok)\<rparr>)
      initial_state)) =
     Some (Headers [(''accept'', ''*/*''), (''sentry-trace'', ''trace-a1-1'')] set_header_ok) \<and>
   options_headers (fst (fetchCallback (Some (example_transaction ''a1''))
      (shouldCreateSpan defaultRequestInstrumentionOptions)
      (example_fetch ''/users'' None) initial_state)) =
     Some (HeaderRecord [(''sentry-trace'', ''trace-a1-1'')]) \<and>
   fst (xhrCallback (Some (example_transaction ''a1''))
      (shouldCreateSpan defaultRequestInstrumentionOptions)
      (Some (example_xhr ''/users'' False (Some set_header_combines))) initial_state) =
     Some ((example_xhr ''/users'' False (Some set_header_combines))
       \<lparr>xhr := Some ((example_xhr_object ''/users'' False (Some set_header_combines))
                \<lparr>sentry_xhr_span_id := Some ''a1'',
                 requestHeaders := [(''sentry-trace'', ''trace-a1-1'')]\<rparr>)\<rparr>) \<and>
   fst (xhrCallback (Some (example_transaction ''a1''))
      (shouldCreateSpan defaultRequestInstrumentionOptions)
      (Some (example_xhr ''/users'' False None)) initial_state) =
     Some ((example_xhr ''/users'' False None)
       \<lparr>xhr := Some ((example_xhr_object ''/users'' False None)
                \<lparr>sentry_xhr_span_id := Some ''a1''\<rparr>)\<rparr>)"
  using
    C6_header_written [where h = "example_fetch ''/users'' (Some (example_init_headers set_header_combines))"
      and fd = "example_fetch_info ''/users''" and opts = defaultRequestInstrumentionOptions
      and st = initial_state and tx = "example_transaction ''a1''"
      and xd = "example_xhr ''/users'' False (Some set_header_combines)"
      and x = "example_xhr_object ''/users'' False (Some set_header_combines)"
      and sx = "example_sentry_xhr ''/users''"]
    C6_header_written [where h = "example_fetch ''/users'' (Some example_init_pairs)"
      and fd = "example_fetch_info ''/users''" and opts = defaultRequestInstrumentionOptions
      and st = initial_state and tx = "example_transaction ''a1''"
      and xd = "example_xhr ''/users'' False None"
      and x = "example_xhr_object ''/users'' False None"
      and sx = "example_sentry_xhr ''/users''"]
    C6_header_written [where h = "example_fetch ''/users'' (Some example_init_record)"
      and fd = "example_fetch_info ''/users''" and opts = defaultRequestInstrumentionOptions
      and st = initial_state and tx = "example_transaction ''a1''", THEN conjunct1]
    C6_header_written [where
      h = "(example_fetch ''/users'' (Some example_init_pairs))
             \<lparr>arg0 := Some (Request [(''accept'', ''*/*'')] set_header_ok)\<rparr>"
      and fd = "example_fetch_info ''/users''" and opts = defaultRequestInstrumentionOptions
      and st = initial_state and tx = "example_transaction ''a1''", THEN conjunct1]
    C6_header_written [where h = "example_fetch ''/users'' None"
      and fd = "example_fetch_info ''/users''" and opts = defaultRequestInstrumentionOptions
      and st = initial_state and tx = "example_transaction ''a1''", THEN conjunct1]
  by (simp add: example_defs run_defs)

text \<open>
  C6, the claim as stated fails at each of these inputs: a plain object that already has
  a \<^verbatim>\<open>'sentry-trace'\<close> property does not keep that entry; an XHR request whose
  \<^verbatim>\<open>setRequestHeader\<close> throws gets no header; and a \<^verbatim>\<open>Headers\<close> object whose
  \<^verbatim>\<open>append\<close> throws gets no header either, the exception leaving the fetch callback.
\<close>

theorem C6_header_not_written_counterexample:
  "header_sink (example_fetch ''/users'' (Some example_init_record)) =
     Some (HeaderRecord [(''sentry-trace'', ''old''), (''accept'', ''text/html'')]) \<and>
   options_headers (fst (fetchCallback (Some (example_transaction ''a1''))
      (shouldCreateSpan defaultRequestInstrumentionOptions)
      (example_fetch ''/users'' (Some example_init_record)) initial_state)) =
     Some (HeaderRecord [(''sentry-trace'', ''trace-a1-1''), (''accept'', ''text/html'')]) \<and>
   (''sentry-trace'', ''old'') \<notin> set [(''sentry-trace'', ''trace-a1-1''), (''accept'', ''text/html'')] \<and>
   fst (shouldCreateSpan defaultRequestInstrumentionOptions ''/users'' initial_state) \<and>
   fst (xhrCallback (Some (example_transaction ''a1''))
      (shouldCreateSpan defaultRequestInstrumentionOptions)
      (Some (example_xhr ''/users'' False (Some set_header_throws))) initial_state) =
     Some ((example_xhr ''/users'' False (Some set_header_throws))
       \<lparr>xhr := Some ((example_xhr_object ''/users'' False (Some set_header_throws))
                \<lparr>sentry_xhr_span_id := Some ''a1'', requestHeaders := []\<rparr>)\<rparr>) \<and>
   options_headers (fst (fetchCallback (Some (example_transaction ''a1''))
      (shouldCreateSpan defaultRequestInstrumentionOptions)
      (example_fetch ''/users'' (Some (example_init_headers set_header_throws))) initial_state)) =
     Some (Headers [(''accept'', ''text/html''), (''sentry-trace'', ''old'')] set_header_throws) \<and>
   thrown (snd (fetchCallback (Some (example_transaction ''a1''))
      (shouldCreateSpan defaultRequestInstrumentionOptions)
      (example_fetch ''/users'' (Some (example_init_headers set_header_throws))) initial_state)) =
     [Error ''InvalidStateError'']"
  by (simp add: example_defs run_defs)

text \<open>
  C9 (as the specification has it). When no sampler is configured and the caller passed
  no explicit \<^verbatim>\<open>sampled\<close> value, a transaction with a parent sampling decision in
  its context takes the parent's decision, without a diagnostic; in particular a parent
  decision of false gives \<open>NotSampled\<close> when the sample rate is 1.
\<close>

theorem C9_parent_decision_inherited:
  "(sampler opts = None \<and> explicit_sampled ctx = Unset \<and> parentSampled ctx = Some b \<longrightarrow>
      sample opts ctx draw = (decision_of_bool b, False)) \<and>
   (sampler opts = None \<and> explicit_sampled ctx = Unset \<and> parentSampled ctx = Some False \<and>
    sampleRate opts = Some (NumValue 1) \<longrightarrow>
      fst (sample opts ctx draw) = NotSampled)"
  by (simp add: sample_def decision_of_bool_def)

theorem C9_parent_decision_inherited_witness:
  "fst (sample \<lparr>sampleRate = Some (NumValue 1), sampler = None\<rparr>
     \<lparr>transaction_name = ''dogpark'', explicit_sampled = Unset, parentSampled = Some False\<rparr> 0) =
   NotSampled \<and>
   fst (sample \<lparr>sampleRate = Some (NumValue 1), sampler = None\<rparr>
     \<lparr>transaction_name = ''dogpark'', explicit_sampled = Unset, parentSampled = None\<rparr> 0) =
   Sampled"
  using C9_parent_decision_inherited [where opts = "\<lparr>sampleRate = Some (NumValue 1), sampler = None\<rparr>"
     and ctx = "\<lparr>transaction_name = ''dogpark'', explicit_sampled = Unset, parentSampled = Some False\<rparr>"
     and b = False and draw = 0]
  by (simp add: sample_def decide_value_def decision_of_bool_def)

text \<open>
  C9, the claim as stated fails when the caller passed an explicit \<^verbatim>\<open>sampled\<close>
  value: by the first rule of the precedence it is kept, against the parent's decision.
\<close>

theorem C9_explicit_decision_counterexample:
  "sampler \<lparr>sampleRate = Some (NumValue 1), sampler = None\<rparr> = None \<and>
   parentSampled \<lparr>transaction_name = ''dogpark'', explicit_sampled = Sampled,
     parentSampled = Some False\<rparr> = Some False \<and>
   fst (sample \<lparr>sampleRate = Some (NumValue 1), sampler = None\<rparr>
     \<lparr>transaction_name = ''dogpark'', explicit_sampled = Sampled, parentSampled = Some False\<rparr> 0) =
   Sampled \<and>
   Sampled \<noteq> decision_of_bool False"
  by (simp add: sample_def decision_of_bool_def)

end
